theory Spec2Isabelle
  imports Complex_Main "HOL-Library.AList"
begin

section \<open>JavaScript numbers\<close>

text \<open>
  The engine computes with JavaScript numbers. A number is modelled as a real, or one of
  the three non-finite values of IEEE 754. The rounding of the double arithmetic (\<open>+\<close>,
  \<open>-\<close>, \<open>*\<close>, \<open>/\<close>, \<^verbatim>\<open>Math.sin\<close>, decimal literals) is left out: a finite double is
  idealised as an exact real, and the sign of zero is not kept. What is not left out:
  \<^verbatim>\<open>Math.PI\<close> is the double it is, a store into a \<^verbatim>\<open>Float32Array\<close> rounds to single
  precision, and a decimal text outside the range of the doubles reads as \<open>Infinity\<close> or
  \<open>0\<close>. The non-finite values follow IEEE 754: \<open>NaN\<close> is absorbing, \<open>Infinity - Infinity\<close>
  and \<open>Infinity * 0\<close> are \<open>NaN\<close>.
\<close>

datatype jsnum = Fin real | PInf | NInf | NaN

fun jsign :: "jsnum \<Rightarrow> real" where
  "jsign (Fin a) = sgn a"
| "jsign PInf = 1"
| "jsign NInf = - 1"
| "jsign NaN = 0"

definition inf_of_sign :: "real \<Rightarrow> jsnum" where
  "inf_of_sign s = (if 0 < s then PInf else if s < 0 then NInf else NaN)"

fun jadd :: "jsnum \<Rightarrow> jsnum \<Rightarrow> jsnum" where
  "jadd (Fin a) (Fin b) = Fin (a + b)"
| "jadd NaN _ = NaN"
| "jadd _ NaN = NaN"
| "jadd PInf NInf = NaN"
| "jadd NInf PInf = NaN"
| "jadd PInf _ = PInf"
| "jadd _ PInf = PInf"
| "jadd NInf _ = NInf"
| "jadd _ NInf = NInf"

fun jneg :: "jsnum \<Rightarrow> jsnum" where
  "jneg (Fin a) = Fin (- a)"
| "jneg PInf = NInf"
| "jneg NInf = PInf"
| "jneg NaN = NaN"

fun jmul :: "jsnum \<Rightarrow> jsnum \<Rightarrow> jsnum" where
  "jmul (Fin a) (Fin b) = Fin (a * b)"
| "jmul NaN _ = NaN"
| "jmul _ NaN = NaN"
| "jmul u v = inf_of_sign (jsign u * jsign v)"

fun jdiv :: "jsnum \<Rightarrow> jsnum \<Rightarrow> jsnum" where
  "jdiv (Fin a) (Fin b) = (if b = 0 then inf_of_sign (sgn a) else Fin (a / b))"
| "jdiv NaN _ = NaN"
| "jdiv _ NaN = NaN"
| "jdiv (Fin a) _ = Fin 0"
| "jdiv u (Fin b) = inf_of_sign (jsign u * (if b < 0 then - 1 else 1))"
| "jdiv _ _ = NaN"

instantiation jsnum :: "{plus, minus, uminus, times, inverse}"
begin

definition plus_jsnum :: "jsnum \<Rightarrow> jsnum \<Rightarrow> jsnum" where
  "plus_jsnum u v = jadd u v"

definition uminus_jsnum :: "jsnum \<Rightarrow> jsnum" where
  "uminus_jsnum u = jneg u"

definition minus_jsnum :: "jsnum \<Rightarrow> jsnum \<Rightarrow> jsnum" where
  "minus_jsnum u v = jadd u (jneg v)"

definition times_jsnum :: "jsnum \<Rightarrow> jsnum \<Rightarrow> jsnum" where
  "times_jsnum u v = jmul u v"

definition divide_jsnum :: "jsnum \<Rightarrow> jsnum \<Rightarrow> jsnum" where
  "divide_jsnum u v = jdiv u v"

definition inverse_jsnum :: "jsnum \<Rightarrow> jsnum" where
  "inverse_jsnum u = jdiv (Fin 1) u"

instance ..

end

text \<open>
  \<^verbatim>\<open>Math.sin\<close> is the sine without its rounding (the language leaves its accuracy to the
  implementation). \<^verbatim>\<open>Math.PI\<close> is the double nearest to \<open>\<pi>\<close>, which is
  \<open>884279719003555 / 2 ^ 48\<close> and a little below \<open>\<pi>\<close>.
\<close>

fun Math_sin :: "jsnum \<Rightarrow> jsnum" where
  "Math_sin (Fin a) = Fin (sin a)"
| "Math_sin _ = NaN"

definition Math_PI_value :: real where
  "Math_PI_value = 884279719003555 / 281474976710656"

definition Math_PI :: jsnum where
  "Math_PI = Fin Math_PI_value"

text \<open>
  Rounding to a binary floating-point format with \<open>p\<close> significand bits, least normal
  exponent \<open>emin\<close> and overflow at \<open>2 ^ emax\<close>: to the nearest value of the format, a tie to
  the even significand, below \<open>2 ^ emin\<close> on the fixed grid of the subnormal numbers, and
  to an infinity when the rounded magnitude reaches \<open>2 ^ emax\<close>.
\<close>

definition pow2 :: "int \<Rightarrow> real" where
  "pow2 e = (if 0 \<le> e then 2 ^ nat e else 1 / 2 ^ nat (- e))"

definition roundHalfEven :: "real \<Rightarrow> int" where
  "roundHalfEven q =
     (let n = \<lfloor>q\<rfloor>
      in if q - of_int n < 1 / 2 then n
         else if 1 / 2 < q - of_int n then n + 1
         else if even n then n else n + 1)"

definition roundBinary :: "nat \<Rightarrow> int \<Rightarrow> int \<Rightarrow> real \<Rightarrow> jsnum" where
  "roundBinary p emin emax r =
     (if r = 0 then Fin 0
      else
        let a = abs r;
            e = max emin \<lfloor>log 2 a\<rfloor>;
            ulp = pow2 (e - int p + 1);
            m = of_int (roundHalfEven (a / ulp)) * ulp
        in if pow2 emax \<le> m then inf_of_sign r else Fin (sgn r * m))"

text \<open>
  \<^verbatim>\<open>Math.fround\<close>, which is also what a store into a \<^verbatim>\<open>Float32Array\<close> does to the
  number stored: single precision has 24 significand bits, least normal exponent \<open>-126\<close>
  and overflows at \<open>2 ^ 128\<close>.
\<close>

fun fround :: "jsnum \<Rightarrow> jsnum" where
  "fround (Fin r) = roundBinary 24 (- 126) 128 r"
| "fround u = u"

text \<open>
  \<^verbatim>\<open>parseFloat\<close> (ECMAScript 19.2.4): leading white space is dropped, the longest prefix that
  is a \<^verbatim>\<open>StrDecimalLiteral\<close> is read, and \<open>NaN\<close> is the result when there is none.
  A character of a HOL string is a code unit below 256, so a string of the model is a
  JavaScript string of such code units; of the white space and line terminators of the
  language, these seven lie in that range (the others, such as U+FEFF, U+2028 and the space
  separators from U+1680 on, cannot occur in a string of the model).
\<close>

definition isWhiteSpace :: "char \<Rightarrow> bool" where
  "isWhiteSpace c =
     (c \<in> {CHR 0x09, CHR 0x0A, CHR 0x0B, CHR 0x0C, CHR 0x0D, CHR 0x20, CHR 0xA0})"

definition isDigit :: "char \<Rightarrow> bool" where
  "isDigit c = (48 \<le> (of_char c :: nat) \<and> (of_char c :: nat) \<le> 57)"

definition digitsValue :: "string \<Rightarrow> nat" where
  "digitsValue ds = foldl (\<lambda>acc c. 10 * acc + ((of_char c :: nat) - 48)) 0 ds"

text \<open>The exponent part \<^verbatim>\<open>e\<close>/\<^verbatim>\<open>E\<close>, an optional sign, and at least one digit; \<open>0\<close> when absent.\<close>

definition exponentPart :: "string \<Rightarrow> int" where
  "exponentPart r =
     (case r of
        [] \<Rightarrow> 0
      | c # r1 \<Rightarrow>
          if c = CHR ''e'' \<or> c = CHR ''E'' then
            (case r1 of
               [] \<Rightarrow> 0
             | d # r2 \<Rightarrow>
                 if d = CHR ''+'' then int (digitsValue (takeWhile isDigit r2))
                 else if d = CHR ''-'' then - int (digitsValue (takeWhile isDigit r2))
                 else int (digitsValue (takeWhile isDigit r1)))
          else 0)"

definition scale10 :: "real \<Rightarrow> int \<Rightarrow> real" where
  "scale10 m e = (if 0 \<le> e then m * 10 ^ nat e else m / 10 ^ nat (- e))"

text \<open>
  The number a decimal text denotes: a magnitude that rounds beyond the largest double
  (from \<open>2 ^ 1024 - 2 ^ 970\<close>, half a unit above it) is \<open>Infinity\<close>, one that rounds below
  the least double (up to \<open>2 ^ - 1075\<close>, half of it) is \<open>0\<close>; in between the decimal is kept
  as it is, as the literals of the source are.
\<close>

definition toNumber :: "real \<Rightarrow> jsnum" where
  "toNumber v =
     (if 2 ^ 1024 - 2 ^ 970 \<le> abs v then inf_of_sign v
      else if abs v \<le> 1 / 2 ^ 1075 then Fin 0
      else Fin v)"

definition strUnsignedDecimalLiteral :: "string \<Rightarrow> jsnum" where
  "strUnsignedDecimalLiteral s =
     (if take 8 s = ''Infinity'' then PInf
      else
        let ip = takeWhile isDigit s;
            r1 = dropWhile isDigit s;
            dot = (r1 \<noteq> [] \<and> hd r1 = CHR ''.'');
            fp = (if dot then takeWhile isDigit (tl r1) else []);
            r2 = (if dot then dropWhile isDigit (tl r1) else r1)
        in if ip = [] \<and> fp = [] then NaN
           else toNumber (scale10 (real (digitsValue (ip @ fp)))
                                  (exponentPart r2 - int (length fp))))"

definition parseFloat :: "string \<Rightarrow> jsnum" where
  "parseFloat s =
     (let t = dropWhile isWhiteSpace s
      in case t of
           [] \<Rightarrow> NaN
         | c # r \<Rightarrow>
             if c = CHR ''+'' then strUnsignedDecimalLiteral r
             else if c = CHR ''-'' then - strUnsignedDecimalLiteral r
             else strUnsignedDecimalLiteral t)"

section \<open>The engine of \<^verbatim>\<open>src/main.js\<close>\<close>

text \<open>
  A parameter object (\<^verbatim>\<open>params.lorenz\<close>, ...) is an association list in the order of its
  keys (\<^verbatim>\<open>Object.keys\<close>). Reading a property that is missing gives \<^verbatim>\<open>undefined\<close>, which
  arithmetic turns into \<open>NaN\<close>.
\<close>

type_synonym obj = "(string \<times> jsnum) list"

definition getnum :: "obj \<Rightarrow> string \<Rightarrow> jsnum" where
  "getnum ob key = (case map_of ob key of Some v \<Rightarrow> v | None \<Rightarrow> NaN)"

record params_t =
  lorenz :: obj
  aizawa :: obj
  rossler :: obj
  chen :: obj
  thomas :: obj
  dadras :: obj

definition params0 :: params_t where
  "params0 =
     \<lparr> lorenz = [(''sigma'', Fin 10), (''rho'', Fin 28), (''beta'', Fin 2.666), (''dt'', Fin 0.01)],
       aizawa = [(''a'', Fin 0.95), (''b'', Fin 0.7), (''c'', Fin 0.6), (''d'', Fin 3.5),
                 (''e'', Fin 0.25), (''f'', Fin 0.1), (''dt'', Fin 0.01)],
       rossler = [(''a'', Fin 0.2), (''b'', Fin 0.2), (''c'', Fin 5.7), (''dt'', Fin 0.01)],
       chen = [(''a'', Fin 35), (''b'', Fin 3), (''c'', Fin 28), (''dt'', Fin 0.001)],
       thomas = [(''b'', Fin 0.208186), (''dt'', Fin 0.05)],
       dadras = [(''a'', Fin 3), (''b'', Fin 2.7), (''c'', Fin 1.7), (''d'', Fin 2),
                 (''e'', Fin 9), (''dt'', Fin 0.01)] \<rparr>"

text \<open>
  \<^verbatim>\<open>params[currentAttractor]\<close>: the parameter object of that name, if the name is one of
  the six keys. (Any other name gives \<^verbatim>\<open>undefined\<close>, or an inherited object without own keys;
  either way \<^verbatim>\<open>updateParametersFromUI\<close> writes nothing.)
\<close>

definition params_get :: "params_t \<Rightarrow> string \<Rightarrow> obj option" where
  "params_get p name =
     (if name = ''lorenz'' then Some (lorenz p)
      else if name = ''aizawa'' then Some (aizawa p)
      else if name = ''rossler'' then Some (rossler p)
      else if name = ''chen'' then Some (chen p)
      else if name = ''thomas'' then Some (thomas p)
      else if name = ''dadras'' then Some (dadras p)
      else None)"

definition params_set :: "params_t \<Rightarrow> string \<Rightarrow> obj \<Rightarrow> params_t" where
  "params_set p name ob =
     (if name = ''lorenz'' then p\<lparr>lorenz := ob\<rparr>
      else if name = ''aizawa'' then p\<lparr>aizawa := ob\<rparr>
      else if name = ''rossler'' then p\<lparr>rossler := ob\<rparr>
      else if name = ''chen'' then p\<lparr>chen := ob\<rparr>
      else if name = ''thomas'' then p\<lparr>thomas := ob\<rparr>
      else if name = ''dadras'' then p\<lparr>dadras := ob\<rparr>
      else p)"

definition maxPoints :: nat where
  "maxPoints = 10000"

text \<open>The module-level variables of \<^verbatim>\<open>main.js\<close>.\<close>

record state =
  x :: jsnum
  y :: jsnum
  z :: jsnum
  params :: params_t
  currentAttractor :: string
  pointCount :: nat
  positions :: "jsnum list"
  colors :: "jsnum list"

definition init :: state where
  "init =
     \<lparr> x = Fin 0.1, y = Fin 0, z = Fin 0,
       params = params0,
       currentAttractor = ''lorenz'',
       pointCount = 0,
       positions = replicate (maxPoints * 3) (Fin 0),
       colors = replicate (maxPoints * 3) (Fin 0) \<rparr>"

text \<open>
  The two \<^verbatim>\<open>Float32Array\<close>s: \<^verbatim>\<open>fill\<close> keeps the length (and \<open>0\<close> is stored as it is), a
  write out of range is ignored (as \<open>list_update\<close> does), a read out of range gives
  \<^verbatim>\<open>undefined\<close>, stored as \<open>NaN\<close>.
\<close>

definition fill :: "jsnum list \<Rightarrow> jsnum \<Rightarrow> jsnum list" where
  "fill arr v = replicate (length arr) v"

definition geti :: "jsnum list \<Rightarrow> nat \<Rightarrow> jsnum" where
  "geti arr j = (if j < length arr then arr ! j else NaN)"

text \<open>
  The page: \<open>ui ident\<close> is the \<^verbatim>\<open>value\<close> of the input element with that id, \<open>None\<close> when
  \<^verbatim>\<open>document.getElementById\<close> gives \<^verbatim>\<open>null\<close>. The page belongs to the host: every frame
  reads it anew, and what the engine writes into it (\<^verbatim>\<open>updateUIFromParams\<close>) is not part of
  the engine's state.
\<close>

type_synonym page = "string \<rightharpoonup> string"

definition resetAttractor :: "state \<Rightarrow> state" where
  "resetAttractor st =
     st\<lparr> x := Fin 0.1, y := Fin 0, z := Fin 0,
         pointCount := 0,
         positions := fill (positions st) (Fin 0),
         colors := fill (colors st) (Fin 0) \<rparr>"

definition updateParametersFromUI :: "page \<Rightarrow> state \<Rightarrow> state" where
  "updateParametersFromUI ui st =
     (case params_get (params st) (currentAttractor st) of
        None \<Rightarrow> st
      | Some currentParams \<Rightarrow>
          st\<lparr> params := params_set (params st) (currentAttractor st)
                 (fold (\<lambda>key ob.
                          case ui (currentAttractor st @ ''-'' @ key) of
                            Some v \<Rightarrow> AList.update key (parseFloat v) ob
                          | None \<Rightarrow> ob)
                       (map fst currentParams) currentParams) \<rparr>)"

definition changeAttractor :: "string \<Rightarrow> state \<Rightarrow> state" where
  "changeAttractor type st = resetAttractor (st\<lparr>currentAttractor := type\<rparr>)"

type_synonym vec = "jsnum \<times> jsnum \<times> jsnum"

definition computeNextPoint :: "state \<Rightarrow> state" where
  "computeNextPoint st =
     (let (dx, dy, dz) =
        (if currentAttractor st = ''lorenz'' then
           (let sigma = getnum (lorenz (params st)) ''sigma'';
                rho = getnum (lorenz (params st)) ''rho'';
                beta = getnum (lorenz (params st)) ''beta'';
                dt = getnum (lorenz (params st)) ''dt''
            in (sigma * (y st - x st) * dt,
                (x st * (rho - z st) - y st) * dt,
                (x st * y st - beta * z st) * dt))
         else if currentAttractor st = ''aizawa'' then
           (let a = getnum (aizawa (params st)) ''a'';
                b = getnum (aizawa (params st)) ''b'';
                c = getnum (aizawa (params st)) ''c'';
                d = getnum (aizawa (params st)) ''d'';
                e = getnum (aizawa (params st)) ''e'';
                f = getnum (aizawa (params st)) ''f'';
                dtA = getnum (aizawa (params st)) ''dt''
            in (((z st - b) * x st - d * y st) * dtA,
                (d * x st + (z st - b) * y st) * dtA,
                (c + a * z st - z st * z st * z st / Fin 3
                   - (x st * x st + y st * y st) * (Fin 1 + e * z st)
                   + f * z st * x st * x st * x st) * dtA))
         else if currentAttractor st = ''rossler'' then
           (let aR = getnum (rossler (params st)) ''a'';
                bR = getnum (rossler (params st)) ''b'';
                cR = getnum (rossler (params st)) ''c'';
                dtR = getnum (rossler (params st)) ''dt''
            in ((- y st - z st) * dtR,
                (x st + aR * y st) * dtR,
                (bR + z st * (x st - cR)) * dtR))
         else if currentAttractor st = ''chen'' then
           (let aC = getnum (chen (params st)) ''a'';
                bC = getnum (chen (params st)) ''b'';
                cC = getnum (chen (params st)) ''c'';
                dtC = getnum (chen (params st)) ''dt''
            in (aC * (y st - x st) * dtC,
                ((cC - aC) * x st - x st * z st + cC * y st) * dtC,
                (x st * y st - bC * z st) * dtC))
         else if currentAttractor st = ''thomas'' then
           (let bT = getnum (thomas (params st)) ''b'';
                dtT = getnum (thomas (params st)) ''dt''
            in ((Math_sin (y st) - bT * x st) * dtT,
                (Math_sin (z st) - bT * y st) * dtT,
                (Math_sin (x st) - bT * z st) * dtT))
         else if currentAttractor st = ''dadras'' then
           (let aD = getnum (dadras (params st)) ''a'';
                bD = getnum (dadras (params st)) ''b'';
                cD = getnum (dadras (params st)) ''c'';
                dD = getnum (dadras (params st)) ''d'';
                eD = getnum (dadras (params st)) ''e'';
                dtD = getnum (dadras (params st)) ''dt''
            in ((y st - aD * x st + bD * y st * z st) * dtD,
                (cD * y st - x st * z st + z st) * dtD,
                (dD * x st * y st - eD * z st) * dtD))
         else (Fin 0, Fin 0, Fin 0))
      in st\<lparr> x := x st + dx, y := y st + dy, z := z st + dz \<rparr>)"

definition getColor :: "jsnum \<Rightarrow> vec" where
  "getColor i =
     (let phi = i / Fin (real maxPoints) * Math_PI * Fin 2
      in (Math_sin phi * Fin 0.5 + Fin 0.5,
          Math_sin (phi + Fin 2 * Math_PI / Fin 3) * Fin 0.5 + Fin 0.5,
          Math_sin (phi + Fin 4 * Math_PI / Fin 3) * Fin 0.5 + Fin 0.5))"

text \<open>
  One pass of the shifting loop of \<^verbatim>\<open>animate\<close>, on one of the two arrays. The number
  copied was read from a cell of the array, so storing it again does not round it.
\<close>

definition shift3 :: "nat \<Rightarrow> jsnum list \<Rightarrow> jsnum list" where
  "shift3 i arr =
     (let a1 = arr[i * 3 := geti arr ((i + 1) * 3)];
          a2 = a1[i * 3 + 1 := geti a1 ((i + 1) * 3 + 1)]
      in a2[i * 3 + 2 := geti a2 ((i + 1) * 3 + 2)])"

text \<open>Three stores of doubles into one slot of an array, each rounded to single precision.\<close>

definition put3 :: "nat \<Rightarrow> vec \<Rightarrow> jsnum list \<Rightarrow> jsnum list" where
  "put3 i v arr =
     (case v of (v0, v1, v2) \<Rightarrow>
        arr[i * 3 := fround v0, i * 3 + 1 := fround v1, i * 3 + 2 := fround v2])"

text \<open>
  The part of \<^verbatim>\<open>animate\<close> after \<^verbatim>\<open>computeNextPoint\<close>: the new point is written at slot
  \<open>pointCount\<close>, or, when the buffer is full, both arrays are shifted by one slot and the new
  point is written at the last slot.
\<close>

definition addPoint :: "vec \<Rightarrow> state \<Rightarrow> state" where
  "addPoint newPoint st =
     (if pointCount st < maxPoints then
        st\<lparr> positions := put3 (pointCount st) newPoint (positions st),
            colors := put3 (pointCount st) (getColor (Fin (real (pointCount st)))) (colors st),
            pointCount := pointCount st + 1 \<rparr>
      else
        (let (ps, cs) = fold (\<lambda>i (ps, cs). (shift3 i ps, shift3 i cs))
                             [0 ..< maxPoints - 1] (positions st, colors st)
         in st\<lparr> positions := put3 (maxPoints - 1) newPoint ps,
                colors := put3 (maxPoints - 1) (getColor (Fin (real (maxPoints - 1)))) cs \<rparr>))"

definition animate :: "page \<Rightarrow> state \<Rightarrow> state" where
  "animate ui st =
     (let st1 = updateParametersFromUI ui st;
          st2 = computeNextPoint st1
      in addPoint (x st2, y st2, z st2) st2)"

text \<open>
  The four inputs that \<^verbatim>\<open>createUI\<close> makes for the lorenz parameters, with the values
  they are created with.
\<close>

definition lorenzInputs :: page where
  "lorenzInputs =
     [''lorenz-sigma'' \<mapsto> ''10'', ''lorenz-rho'' \<mapsto> ''28'',
      ''lorenz-beta'' \<mapsto> ''2.666'', ''lorenz-dt'' \<mapsto> ''0.01'']"

subsection \<open>The sliders\<close>

text \<open>
  Every input that \<^verbatim>\<open>createUI\<close> makes has \<^verbatim>\<open>type="range"\<close>. Such an element sanitises
  the value it is given (HTML, the range state of the input element): a text that is not a
  valid floating-point number, or that has no finite number, is replaced by the default
  value, the middle of the range; a number outside the range is moved to the nearer end;
  a number off the steps is moved to the nearest step, upwards when two are as near. The
  element then holds the decimal text of that number. What follows is that part of the
  browser, as far as the engine depends on it.
\<close>

definition validExponent :: "string \<Rightarrow> bool" where
  "validExponent r =
     (case r of
        [] \<Rightarrow> True
      | c # r1 \<Rightarrow>
          (c = CHR ''e'' \<or> c = CHR ''E'')
          \<and> (let ds = (case r1 of
                         [] \<Rightarrow> []
                       | d # r2 \<Rightarrow> if d = CHR ''+'' \<or> d = CHR ''-'' then r2 else r1)
             in ds \<noteq> [] \<and> list_all isDigit ds))"

definition validFloat :: "string \<Rightarrow> bool" where
  "validFloat s =
     (let s1 = (case s of [] \<Rightarrow> [] | c # r \<Rightarrow> if c = CHR ''-'' then r else s);
          ip = takeWhile isDigit s1;
          r1 = dropWhile isDigit s1;
          dot = (r1 \<noteq> [] \<and> hd r1 = CHR ''.'');
          fp = (if dot then takeWhile isDigit (tl r1) else []);
          r2 = (if dot then dropWhile isDigit (tl r1) else r1)
      in (if dot then fp \<noteq> [] else ip \<noteq> []) \<and> validExponent r2)"

text \<open>
  The decimal text of a number, for the numbers a slider of this page can hold (no exponent
  notation, which the language uses below \<open>1e-6\<close> and from \<open>1e21\<close> on; at most twenty
  digits after the point).
\<close>

definition digitChar :: "nat \<Rightarrow> char" where
  "digitChar d = ''0123456789'' ! d"

fun natDigits :: "nat \<Rightarrow> string" where
  "natDigits n =
     (if n < 10 then [digitChar n]
      else natDigits (n div 10) @ [digitChar (n mod 10)])"

fun fracDigits :: "nat \<Rightarrow> real \<Rightarrow> string" where
  "fracDigits 0 f = []"
| "fracDigits (Suc k) f =
     (if f = 0 then []
      else digitChar (nat \<lfloor>f * 10\<rfloor>) # fracDigits k (f * 10 - of_int \<lfloor>f * 10\<rfloor>))"

definition numberToString :: "real \<Rightarrow> string" where
  "numberToString v =
     (let a = abs v; n = nat \<lfloor>a\<rfloor>; f = a - real n
      in (if v < 0 then ''-'' else [])
         @ natDigits n
         @ (if f = 0 then [] else CHR ''.'' # fracDigits 20 f))"

record rangeInput =
  rangeMin :: real
  rangeMax :: real
  rangeStep :: real
  rangeValue :: string

definition rangeDefault :: "rangeInput \<Rightarrow> real" where
  "rangeDefault el =
     (if rangeMax el < rangeMin el then rangeMin el
      else rangeMin el + (rangeMax el - rangeMin el) / 2)"

definition rangeSanitize :: "rangeInput \<Rightarrow> real \<Rightarrow> real" where
  "rangeSanitize el v =
     (let v1 = (if v < rangeMin el then rangeMin el
                else if rangeMin el \<le> rangeMax el \<and> rangeMax el < v then rangeMax el
                else v);
          k = \<lfloor>(v1 - rangeMin el) / rangeStep el + 1 / 2\<rfloor>;
          v2 = rangeMin el + of_int k * rangeStep el
      in if rangeMin el \<le> rangeMax el \<and> rangeMax el < v2 then v2 - rangeStep el else v2)"

text \<open>The assignment \<^verbatim>\<open>input.value = s\<close> to a slider.\<close>

definition setRangeValue :: "rangeInput \<Rightarrow> string \<Rightarrow> rangeInput" where
  "setRangeValue el s =
     el\<lparr> rangeValue :=
           numberToString
             (rangeSanitize el
                (if validFloat s
                 then (case parseFloat s of Fin v \<Rightarrow> v | _ \<Rightarrow> rangeDefault el)
                 else rangeDefault el)) \<rparr>"

text \<open>The four sliders of the lorenz parameters, with the attributes \<^verbatim>\<open>createUI\<close> gives them.\<close>

definition lorenzSliders :: "string \<rightharpoonup> rangeInput" where
  "lorenzSliders =
     [''lorenz-sigma'' \<mapsto> \<lparr> rangeMin = 1, rangeMax = 20, rangeStep = 0.1, rangeValue = ''10'' \<rparr>,
      ''lorenz-rho'' \<mapsto> \<lparr> rangeMin = 0, rangeMax = 100, rangeStep = 0.1, rangeValue = ''28'' \<rparr>,
      ''lorenz-beta'' \<mapsto> \<lparr> rangeMin = 0, rangeMax = 10, rangeStep = 0.001, rangeValue = ''2.666'' \<rparr>,
      ''lorenz-dt'' \<mapsto> \<lparr> rangeMin = 0.001, rangeMax = 0.05, rangeStep = 0.001, rangeValue = ''0.01'' \<rparr>]"

definition assignValue :: "(string \<rightharpoonup> rangeInput) \<Rightarrow> string \<Rightarrow> string \<Rightarrow> (string \<rightharpoonup> rangeInput)" where
  "assignValue els ident s =
     (case els ident of None \<Rightarrow> els | Some el \<Rightarrow> els(ident \<mapsto> setRangeValue el s))"

definition pageOf :: "(string \<rightharpoonup> rangeInput) \<Rightarrow> page" where
  "pageOf els ident = map_option rangeValue (els ident)"

section \<open>The Runge-Kutta variant (\<^verbatim>\<open>src/unnamed/part_000\<close>)\<close>


definition aizawaDerivatives :: "jsnum \<Rightarrow> jsnum \<Rightarrow> jsnum \<Rightarrow> obj \<Rightarrow> jsnum \<Rightarrow> vec" where
  "aizawaDerivatives vx vy vz prm k =
     (let a = getnum prm ''a''; b = getnum prm ''b''; c = getnum prm ''c'';
          d = getnum prm ''d''; e = getnum prm ''e''; f = getnum prm ''f''
      in ((vz / k - b) * vx - d * vy,
          d * vx + (vz / k - b) * vy,
          k * c + a * vz - vz * vz * vz / (Fin 3 * k * k)
            - (vx * vx + vy * vy) / k * (Fin 1 + e * vz / k)
            + f * vz * vx * vx * vx / (k * k * k)))"





definition resetAttractor_p0 :: "state \<Rightarrow> state" where
  "resetAttractor_p0 st =
     (let k = Fin 10;
          st1 = (if currentAttractor st = ''aizawa''
                 then st\<lparr> x := Fin 0.1 * k, y := Fin 0 * k, z := Fin 0 * k \<rparr>
                 else st\<lparr> x := Fin 0.1, y := Fin 0, z := Fin 0 \<rparr>)
      in st1\<lparr> pointCount := 0,
              positions := fill (positions st1) (Fin 0),
              colors := fill (colors st1) (Fin 0) \<rparr>)"

definition changeAttractor_p0 :: "string \<Rightarrow> state \<Rightarrow> state" where
  "changeAttractor_p0 type st = resetAttractor_p0 (st\<lparr>currentAttractor := type\<rparr>)"




section \<open>The Lorenz-only variant (\<^verbatim>\<open>src/unnamed/part_001\<close>)\<close>

text \<open>
  The parameters are four module-level variables and there is no colour array. Only the
  parameter handling and \<^verbatim>\<open>resetAttractor\<close> are needed below; the names carry the suffix
  \<open>_p1\<close>. \<^verbatim>\<open>updateParameters\<close> reads four elements without a null check, so a missing
  element is a \<^verbatim>\<open>TypeError\<close>, the value \<open>None\<close>.
\<close>

record lstate =
  sigma_p1 :: jsnum
  rho_p1 :: jsnum
  beta_p1 :: jsnum
  dt_p1 :: jsnum
  x_p1 :: jsnum
  y_p1 :: jsnum
  z_p1 :: jsnum
  pointCount_p1 :: nat
  positions_p1 :: "jsnum list"

definition init_p1 :: lstate where
  "init_p1 =
     \<lparr> sigma_p1 = Fin 10, rho_p1 = Fin 28, beta_p1 = Fin 2.666, dt_p1 = Fin 0.01,
       x_p1 = Fin 0.1, y_p1 = Fin 0, z_p1 = Fin 0,
       pointCount_p1 = 0,
       positions_p1 = replicate (maxPoints * 3) (Fin 0) \<rparr>"

definition resetAttractor_p1 :: "lstate \<Rightarrow> lstate" where
  "resetAttractor_p1 st =
     st\<lparr> sigma_p1 := Fin 10, rho_p1 := Fin 28, beta_p1 := Fin 2.666, dt_p1 := Fin 0.01,
         x_p1 := Fin 0.1, y_p1 := Fin 0, z_p1 := Fin 0,
         pointCount_p1 := 0,
         positions_p1 := fill (positions_p1 st) (Fin 0) \<rparr>"

definition updateParameters_p1 :: "page \<Rightarrow> lstate \<Rightarrow> lstate option" where
  "updateParameters_p1 ui st =
     (case (ui ''sigma'', ui ''rho'', ui ''beta'', ui ''speed'') of
        (Some vs, Some vr, Some vb, Some vd) \<Rightarrow>
          Some (st\<lparr> sigma_p1 := parseFloat vs, rho_p1 := parseFloat vr,
                    beta_p1 := parseFloat vb, dt_p1 := parseFloat vd \<rparr>)
      | _ \<Rightarrow> None)"

section \<open>The specification's vocabulary\<close>

text \<open>
  The closed set of models, the table of derivatives and the two integrators, written from
  the specification's formulas; the theorems below compare the code with them.
\<close>

datatype model = Lorenz | Aizawa | Rossler | Chen | Thomas | Dadras

fun model_id :: "model \<Rightarrow> string" where
  "model_id Lorenz = ''lorenz''"
| "model_id Aizawa = ''aizawa''"
| "model_id Rossler = ''rossler''"
| "model_id Chen = ''chen''"
| "model_id Thomas = ''thomas''"
| "model_id Dadras = ''dadras''"

fun parameterSet :: "params_t \<Rightarrow> model \<Rightarrow> obj" where
  "parameterSet p Lorenz = lorenz p"
| "parameterSet p Aizawa = aizawa p"
| "parameterSet p Rossler = rossler p"
| "parameterSet p Chen = chen p"
| "parameterSet p Thomas = thomas p"
| "parameterSet p Dadras = dadras p"

fun derivative :: "model \<Rightarrow> obj \<Rightarrow> vec \<Rightarrow> vec" where
  "derivative Lorenz p (vx, vy, vz) =
     (getnum p ''sigma'' * (vy - vx),
      vx * (getnum p ''rho'' - vz) - vy,
      vx * vy - getnum p ''beta'' * vz)"
| "derivative Rossler p (vx, vy, vz) =
     (- vy - vz,
      vx + getnum p ''a'' * vy,
      getnum p ''b'' + vz * (vx - getnum p ''c''))"
| "derivative Chen p (vx, vy, vz) =
     (getnum p ''a'' * (vy - vx),
      (getnum p ''c'' - getnum p ''a'') * vx - vx * vz + getnum p ''c'' * vy,
      vx * vy - getnum p ''b'' * vz)"
| "derivative Thomas p (vx, vy, vz) =
     (Math_sin vy - getnum p ''b'' * vx,
      Math_sin vz - getnum p ''b'' * vy,
      Math_sin vx - getnum p ''b'' * vz)"
| "derivative Dadras p (vx, vy, vz) =
     (vy - getnum p ''a'' * vx + getnum p ''b'' * vy * vz,
      getnum p ''c'' * vy - vx * vz + vz,
      getnum p ''d'' * vx * vy - getnum p ''e'' * vz)"
| "derivative Aizawa p (vx, vy, vz) =
     ((vz - getnum p ''b'') * vx - getnum p ''d'' * vy,
      getnum p ''d'' * vx + (vz - getnum p ''b'') * vy,
      getnum p ''c'' + getnum p ''a'' * vz - vz * vz * vz / Fin 3
        - (vx * vx + vy * vy) * (Fin 1 + getnum p ''e'' * vz)
        + getnum p ''f'' * vz * vx * vx * vx)"

fun vadd :: "vec \<Rightarrow> vec \<Rightarrow> vec" where
  "vadd (a1, a2, a3) (b1, b2, b3) = (a1 + b1, a2 + b2, a3 + b3)"





text \<open>The aizawa derivative of the Runge-Kutta variant, with its scaling factor \<open>k = 10\<close>.\<close>

definition aizawa_scaled :: "obj \<Rightarrow> vec \<Rightarrow> vec" where
  "aizawa_scaled p s = (case s of (vx, vy, vz) \<Rightarrow> aizawaDerivatives vx vy vz p (Fin 10))"

definition fround3 :: "vec \<Rightarrow> vec" where
  "fround3 v = (case v of (v0, v1, v2) \<Rightarrow> (fround v0, fround v1, fround v2))"

definition stateVector :: "state \<Rightarrow> vec" where
  "stateVector st = (x st, y st, z st)"

text \<open>
  The host's view of the trail: the first \<open>pointCount\<close> slots of the flat arrays, one
  triple per slot, oldest first.
\<close>

definition slot3 :: "jsnum list \<Rightarrow> nat \<Rightarrow> vec" where
  "slot3 arr i = (geti arr (i * 3), geti arr (i * 3 + 1), geti arr (i * 3 + 2))"

definition pointsView :: "state \<Rightarrow> vec list" where
  "pointsView st = map (slot3 (positions st)) [0 ..< pointCount st]"

definition colorsView :: "state \<Rightarrow> vec list" where
  "colorsView st = map (slot3 (colors st)) [0 ..< pointCount st]"

text \<open>
  The frame loop: one \<^verbatim>\<open>animate\<close> per frame, each frame with the page as it is then.
  \<open>trajectory\<close> lists the state vector after the first, the second, ... frame.
\<close>

fun run :: "page list \<Rightarrow> state \<Rightarrow> state" where
  "run [] st = st"
| "run (ui # uis) st = run uis (animate ui st)"

definition trajectory :: "page list \<Rightarrow> state \<Rightarrow> vec list" where
  "trajectory uis st = map (\<lambda>n. stateVector (run (take n uis) st)) [1 ..< Suc (length uis)]"

fun withinTol :: "real \<Rightarrow> jsnum \<Rightarrow> jsnum \<Rightarrow> bool" where
  "withinTol tol (Fin a) (Fin b) = (abs (a - b) \<le> tol)"
| "withinTol tol _ _ = False"

fun vecWithin :: "real \<Rightarrow> vec \<Rightarrow> vec \<Rightarrow> bool" where
  "vecWithin tol (a1, a2, a3) (b1, b2, b3)
     = (withinTol tol a1 b1 \<and> withinTol tol a2 b2 \<and> withinTol tol a3 b3)"

section \<open>Arithmetic of JavaScript numbers\<close>

lemma Fin_arith [simp]:
  "Fin a + Fin b = Fin (a + b)"
  "Fin a - Fin b = Fin (a - b)"
  "Fin a * Fin b = Fin (a * b)"
  "- Fin a = Fin (- a)"
  "b \<noteq> 0 \<Longrightarrow> Fin a / Fin b = Fin (a / b)"
  by (simp_all add: plus_jsnum_def minus_jsnum_def times_jsnum_def uminus_jsnum_def
      divide_jsnum_def)

lemma NaN_arith [simp]:
  "NaN + u = NaN" "u + NaN = NaN" "NaN - u = NaN" "u - NaN = NaN"
  "NaN * u = NaN" "u * NaN = NaN" "NaN / u = NaN" "u / NaN = NaN"
  by (cases u; simp add: plus_jsnum_def minus_jsnum_def times_jsnum_def divide_jsnum_def)+

lemma add_Fin_0 [simp]: "u + Fin 0 = u"
  by (cases u) (simp_all add: plus_jsnum_def)


lemma maxPoints_pos: "0 < maxPoints"
  by (simp add: maxPoints_def)

section \<open>Rounding and bounds on \<open>\<pi>\<close>\<close>

lemma pow2_powr: "pow2 e = 2 powr (of_int e)"
  by (simp add: pow2_def powr_int)

lemma pow2_pos: "0 < pow2 e"
  by (simp add: pow2_powr)

lemma floor_log2:
  assumes "pow2 e \<le> a" and "a < pow2 (e + 1)"
  shows "\<lfloor>log 2 a\<rfloor> = e"
proof (rule floor_unique)
  have a: "0 < a" using assms(1) pow2_pos[of e] by linarith
  show "of_int e \<le> log 2 a"
    using assms(1) a by (simp add: le_log_iff pow2_powr)
  show "log 2 a < of_int e + 1"
    using assms(2) a by (simp add: log_less_iff pow2_powr)
qed

lemma roundBinary_eval:
  assumes "0 < r" and "pow2 e \<le> r" and "r < pow2 (e + 1)" and "emin \<le> e"
    and "roundHalfEven (r / pow2 (e - int p + 1)) = n"
    and "of_int n * pow2 (e - int p + 1) < pow2 emax"
  shows "roundBinary p emin emax r = Fin (of_int n * pow2 (e - int p + 1))"
  using assms floor_log2[OF assms(2) assms(3)]
  by (simp add: roundBinary_def Let_def max_def)

lemma fround_examples:
  "fround (Fin 0) = Fin 0"
  "fround (Fin 0.5) = Fin 0.5"
  "fround (Fin 0.1) = Fin (13421773 / 134217728)"
  "fround (Fin 0.09) = Fin (3019899 / 33554432)"
  "fround (Fin 0.028) = Fin (7516193 / 268435456)"
proof -
  show "fround (Fin 0) = Fin 0" by (simp add: roundBinary_def)
  show "fround (Fin 0.5) = Fin 0.5"
    using roundBinary_eval[of "0.5" "- 1" "- 126" 24 8388608 128]
    by (simp add: pow2_def roundHalfEven_def)
  show "fround (Fin 0.1) = Fin (13421773 / 134217728)"
    using roundBinary_eval[of "0.1" "- 4" "- 126" 24 13421773 128]
    by (simp add: pow2_def roundHalfEven_def)
  show "fround (Fin 0.09) = Fin (3019899 / 33554432)"
    using roundBinary_eval[of "0.09" "- 4" "- 126" 24 12079596 128]
    by (simp add: pow2_def roundHalfEven_def)
  show "fround (Fin 0.028) = Fin (7516193 / 268435456)"
    using roundBinary_eval[of "0.028" "- 6" "- 126" 24 15032386 128]
    by (simp add: pow2_def roundHalfEven_def)
qed

lemma roundHalfEven_near: "abs (of_int (roundHalfEven q) - q) \<le> 1 / 2"
proof -
  have "of_int \<lfloor>q\<rfloor> \<le> q" "q < of_int \<lfloor>q\<rfloor> + 1" by linarith+
  then show ?thesis
    by (auto simp add: roundHalfEven_def Let_def)
qed

lemma fround_half_to_one:
  assumes "1 / 2 \<le> r" and "r \<le> 1"
  shows "\<exists>m. fround (Fin r) = Fin m \<and> abs (m - r) \<le> 1 / 2 ^ 25"
proof (cases "r = 1")
  case True
  have "fround (Fin 1) = Fin 1"
    using roundBinary_eval[of 1 0 "- 126" 24 8388608 128]
    by (simp add: pow2_def roundHalfEven_def)
  then show ?thesis using True by simp
next
  case False
  let ?n = "roundHalfEven (r * 2 ^ 24)"
  have u: "pow2 (- 1 - int 24 + 1) = 1 / 2 ^ 24" by (simp add: pow2_def)
  have q: "roundHalfEven (r / pow2 (- 1 - int 24 + 1)) = ?n" by (simp add: pow2_def)
  have n: "abs (of_int ?n - r * 2 ^ 24) \<le> 1 / 2"
    by (rule roundHalfEven_near)
  have d: "abs (of_int ?n * (1 / 2 ^ 24) - r) = abs (of_int ?n - r * 2 ^ 24) / 2 ^ 24"
    by (simp add: field_simps abs_divide)
  have m: "abs (of_int ?n * (1 / 2 ^ 24) - r) \<le> 1 / 2 ^ 25"
    unfolding d using n by (simp add: field_simps)
  have "of_int ?n * (1 / 2 ^ 24) \<le> r + 1 / 2 ^ 25"
    using m by linarith
  then have "of_int ?n * (1 / 2 ^ 24) < (2::real)"
    using assms by simp
  moreover have "(2::real) \<le> pow2 128"
    by (simp add: pow2_def)
  ultimately have lt: "of_int ?n * pow2 (- 1 - int 24 + 1) < pow2 128"
    unfolding u by linarith
  have r0: "0 < r" "pow2 (- 1) \<le> r" "r < pow2 (- 1 + 1)" "(- 126 :: int) \<le> - 1"
    using assms False by (simp_all add: pow2_def)
  have "roundBinary 24 (- 126) 128 r = Fin (of_int ?n * pow2 (- 1 - int 24 + 1))"
    by (rule roundBinary_eval[OF r0 q lt])
  then have "fround (Fin r) = Fin (of_int ?n * (1 / 2 ^ 24))"
    by (simp add: pow2_def)
  then show ?thesis using m by blast
qed

text \<open>Bounds on \<open>\<pi>\<close> from Machin's formula and the alternating series of the arctangent.\<close>

lemma arctan_partial_sums:
  assumes "0 \<le> t" and "t \<le> 1"
  shows "(\<Sum>k<2 * n. (- 1) ^ k * (1 / real (k * 2 + 1) * t ^ (k * 2 + 1))) \<le> arctan t"
    and "arctan t \<le> (\<Sum>k<2 * n + 1. (- 1) ^ k * (1 / real (k * 2 + 1) * t ^ (k * 2 + 1)))"
proof -
  let ?a = "\<lambda>k. 1 / real (k * 2 + 1) * t ^ (k * 2 + 1)"
  have t: "abs t \<le> 1" using assms by simp
  have z: "?a \<longlonglongrightarrow> 0" by (rule zeroseq_arctan_series[OF t])
  have p: "0 \<le> ?a k" for k using assms by simp
  have d: "?a (Suc k) \<le> ?a k" for k
  proof -
    have "t ^ (Suc k * 2 + 1) \<le> t ^ (k * 2 + 1)"
      using assms by (intro power_decreasing) simp_all
    moreover have "1 / real (Suc k * 2 + 1) \<le> 1 / real (k * 2 + 1)"
      by (simp add: field_simps)
    ultimately show ?thesis
      using assms by (intro mult_mono) simp_all
  qed
  have s: "arctan t = (\<Sum>k. (- 1) ^ k * ?a k)" by (rule arctan_series[OF t])
  show "(\<Sum>k<2 * n. (- 1) ^ k * ?a k) \<le> arctan t"
    unfolding s by (rule summable_Leibniz'(2)[OF z p d])
  show "arctan t \<le> (\<Sum>k<2 * n + 1. (- 1) ^ k * ?a k)"
    unfolding s by (rule summable_Leibniz'(4)[OF z p d])
qed

lemma Math_PI_less_pi: "Math_PI_value < pi"
proof -
  have m: "pi = 16 * arctan (1 / 5) - 4 * arctan (1 / 239)"
    using machin by simp
  show ?thesis
    unfolding m Math_PI_value_def
    using arctan_partial_sums(1)[of "1 / 5" 7] arctan_partial_sums(2)[of "1 / 239" 3]
    by (simp add: eval_nat_numeral)
qed

lemma pi_less: "pi < 3.1415926536"
proof -
  have m: "pi = 16 * arctan (1 / 5) - 4 * arctan (1 / 239)"
    using machin by simp
  show ?thesis
    unfolding m
    using arctan_partial_sums(2)[of "1 / 5" 4] arctan_partial_sums(1)[of "1 / 239" 2]
    by (simp add: eval_nat_numeral)
qed

lemma Math_PI_near_pi: "pi - Math_PI_value < 1 / 10 ^ 10"
  using pi_less by (simp add: Math_PI_value_def)

section \<open>The colour of a slot\<close>

lemma getColor_Fin:
  "getColor (Fin t) =
     (Fin (sin (t / real maxPoints * Math_PI_value * 2) * 0.5 + 0.5),
      Fin (sin (t / real maxPoints * Math_PI_value * 2 + 2 * Math_PI_value / 3) * 0.5 + 0.5),
      Fin (sin (t / real maxPoints * Math_PI_value * 2 + 4 * Math_PI_value / 3) * 0.5 + 0.5))"
proof -
  have m: "real maxPoints \<noteq> 0" using maxPoints_pos by simp
  have t: "(3::real) \<noteq> 0" by simp
  show ?thesis
    unfolding getColor_def Math_PI_def Let_def
    by (simp only: Fin_arith(1) Fin_arith(3) Fin_arith(5)[OF m] Fin_arith(5)[OF t]
        Math_sin.simps)
qed

lemma sin_lipschitz: "abs (sin a - sin b) \<le> abs (a - b)" for a b :: real
proof -
  have "abs (sin a - sin b) = 2 * abs (sin ((a - b) / 2)) * abs (cos ((a + b) / 2))"
    by (simp add: sin_diff_sin abs_mult)
  also have "\<dots> \<le> 2 * abs ((a - b) / 2) * 1"
    by (intro mult_mono mult_nonneg_nonneg abs_sin_x_le_abs_x abs_cos_le_one) simp_all
  finally show ?thesis by simp
qed

lemma sin_shifted_near:
  "abs (sin (a * Math_PI_value * 2 + Math_PI_value * 2 + c) - sin (a * Math_PI_value * 2 + c))
     \<le> 2 / 10 ^ 10"
proof -
  let ?u = "a * Math_PI_value * 2 + c"
  have "sin (a * Math_PI_value * 2 + Math_PI_value * 2 + c)
          = sin (?u + (Math_PI_value * 2 - 2 * pi) + 2 * pi)"
    by (simp add: algebra_simps)
  also have "\<dots> = sin (?u + (Math_PI_value * 2 - 2 * pi))"
    by (rule sin_periodic)
  finally have "abs (sin (a * Math_PI_value * 2 + Math_PI_value * 2 + c) - sin ?u)
                  \<le> abs (?u + (Math_PI_value * 2 - 2 * pi) - ?u)"
    using sin_lipschitz[of "?u + (Math_PI_value * 2 - 2 * pi)" ?u] by simp
  then show ?thesis
    using Math_PI_near_pi Math_PI_less_pi by simp
qed

lemma pi_gt3': "3 < pi"
  using Math_PI_less_pi by (simp add: Math_PI_value_def)

lemma sin_two_Math_PI: "sin (Math_PI_value * 2) < 0"
proof -
  have "sin (Math_PI_value * 2) = sin (Math_PI_value * 2 - 2 * pi + 2 * pi)" by simp
  also have "\<dots> = sin (Math_PI_value * 2 - 2 * pi)" by (rule sin_periodic)
  also have "\<dots> = - sin (2 * pi - Math_PI_value * 2)"
    using sin_minus[of "2 * pi - Math_PI_value * 2"] by simp
  finally have s: "sin (Math_PI_value * 2) = - sin (2 * pi - Math_PI_value * 2)" .
  have n: "pi - Math_PI_value < 1"
    using Math_PI_near_pi by simp
  have "0 < 2 * pi - Math_PI_value * 2" "2 * pi - Math_PI_value * 2 < pi"
    using Math_PI_less_pi n pi_gt3' by linarith+
  then have "0 < sin (2 * pi - Math_PI_value * 2)"
    by (rule sin_gt_zero)
  then show ?thesis unfolding s by linarith
qed

text \<open>
  Claim C9, as amended. For every slot index \<open>i\<close> of the buffer, \<open>0 \<le> i < maxPoints\<close>,
  each channel of the colour of index \<open>i + maxPoints\<close> is within \<open>1e-9\<close> of that channel of
  the colour of index \<open>i\<close>. The two colours are not equal in general: the phase advances by
  \<open>2 * Math.PI\<close>, which is not \<open>2 * \<pi>\<close>, so \<open>maxPoints\<close> is not exactly a period of the
  hue cycle.
\<close>

theorem getColor_nearly_periodic:
  assumes "0 \<le> i" and "i < int maxPoints"
  shows "vecWithin (1 / 10 ^ 9) (getColor (Fin (of_int (i + int maxPoints))))
                                 (getColor (Fin (of_int i)))"
proof -
  have m: "real maxPoints \<noteq> 0" using maxPoints_pos by simp
  have e: "real_of_int (i + int maxPoints) / real maxPoints * Math_PI_value * 2
           = real_of_int i / real maxPoints * Math_PI_value * 2 + Math_PI_value * 2"
    using m by (simp add: field_simps)
  have n: "abs (sin (real_of_int i / real maxPoints * Math_PI_value * 2 + Math_PI_value * 2 + c)
                 * 0.5 + 0.5
               - (sin (real_of_int i / real maxPoints * Math_PI_value * 2 + c) * 0.5 + 0.5))
             \<le> 1 / 10 ^ 9" for c
  proof -
    let ?p = "sin (real_of_int i / real maxPoints * Math_PI_value * 2 + Math_PI_value * 2 + c)"
    let ?q = "sin (real_of_int i / real maxPoints * Math_PI_value * 2 + c)"
    have "abs (?p - ?q) \<le> 2 / 10 ^ 10"
      by (rule sin_shifted_near)
    moreover have "abs (?p * 0.5 + 0.5 - (?q * 0.5 + 0.5)) = abs (?p - ?q) / 2"
      by (simp add: abs_if)
    ultimately show ?thesis by simp
  qed
  show ?thesis
    unfolding getColor_Fin e
    using n[of 0] n[of "2 * Math_PI_value / 3"] n[of "4 * Math_PI_value / 3"]
    by simp
qed

theorem getColor_nearly_periodic_witness:
  "(0::int) \<le> 5 \<and> 5 < int maxPoints
   \<and> vecWithin (1 / 10 ^ 9) (getColor (Fin (of_int (5 + int maxPoints))))
                              (getColor (Fin (of_int 5)))"
proof -
  have b: "(0::int) \<le> 5" "5 < int maxPoints" by (simp_all add: maxPoints_def)
  show ?thesis
    using getColor_nearly_periodic [OF b] b by blast
qed

text \<open>
  The claim as stated fails at \<open>i = 0\<close>: the colour of index \<open>maxPoints\<close> is not the colour
  of index \<open>0\<close> (its first channel is \<open>sin (2 * Math.PI) * 0.5 + 0.5\<close>, below \<open>0.5\<close>).
\<close>

theorem getColor_periodic_counterexample:
  "getColor (Fin (of_int (0 + int maxPoints))) \<noteq> getColor (Fin (of_int 0))"
  using sin_two_Math_PI maxPoints_pos by (simp add: getColor_Fin)

section \<open>What each function leaves alone\<close>

lemma updateParametersFromUI_frame [simp]:
  "x (updateParametersFromUI ui st) = x st"
  "y (updateParametersFromUI ui st) = y st"
  "z (updateParametersFromUI ui st) = z st"
  "currentAttractor (updateParametersFromUI ui st) = currentAttractor st"
  "pointCount (updateParametersFromUI ui st) = pointCount st"
  "positions (updateParametersFromUI ui st) = positions st"
  "colors (updateParametersFromUI ui st) = colors st"
  by (simp_all add: updateParametersFromUI_def split: option.splits)

lemma computeNextPoint_frame [simp]:
  "params (computeNextPoint st) = params st"
  "currentAttractor (computeNextPoint st) = currentAttractor st"
  "pointCount (computeNextPoint st) = pointCount st"
  "positions (computeNextPoint st) = positions st"
  "colors (computeNextPoint st) = colors st"
  by (simp_all add: computeNextPoint_def Let_def case_prod_beta)

lemma addPoint_frame [simp]:
  "x (addPoint p st) = x st"
  "y (addPoint p st) = y st"
  "z (addPoint p st) = z st"
  "params (addPoint p st) = params st"
  "currentAttractor (addPoint p st) = currentAttractor st"
  by (simp_all add: addPoint_def Let_def case_prod_beta)

lemma resetAttractor_simps [simp]:
  "x (resetAttractor st) = Fin 0.1"
  "y (resetAttractor st) = Fin 0"
  "z (resetAttractor st) = Fin 0"
  "pointCount (resetAttractor st) = 0"
  "params (resetAttractor st) = params st"
  "currentAttractor (resetAttractor st) = currentAttractor st"
  "positions (resetAttractor st) = replicate (length (positions st)) (Fin 0)"
  "colors (resetAttractor st) = replicate (length (colors st)) (Fin 0)"
  by (simp_all add: resetAttractor_def fill_def)

section \<open>The number of live points\<close>

lemma pointCount_addPoint:
  "pointCount (addPoint p st)
     = (if pointCount st < maxPoints then pointCount st + 1 else pointCount st)"
  by (simp add: addPoint_def Let_def case_prod_beta)

lemma pointCount_animate:
  "pointCount (animate ui st)
     = (if pointCount st < maxPoints then pointCount st + 1 else pointCount st)"
  by (simp add: animate_def Let_def pointCount_addPoint)

lemma run_append: "run (uis @ vis) st = run vis (run uis st)"
  by (induction uis arbitrary: st) simp_all

lemma pointCount_run:
  "pointCount st \<le> maxPoints \<Longrightarrow>
   pointCount (run uis st) = min (pointCount st + length uis) maxPoints"
proof (induction uis arbitrary: st)
  case Nil
  then show ?case by simp
next
  case (Cons ui uis)
  have "pointCount (animate ui st) \<le> maxPoints"
    using Cons.prems by (simp add: pointCount_animate)
  from Cons.IH[OF this] show ?case
    using Cons.prems by (simp add: pointCount_animate)
qed

text \<open>
  Claim C7. After a reset and any number of frames the number of live points is at most
  \<open>maxPoints\<close>; once \<open>maxPoints\<close> frames or more have run it is \<open>maxPoints\<close>; a frame below
  capacity adds exactly one live point, a frame at capacity leaves the number as it is.
\<close>

theorem pointCount_bounded:
  "pointCount (run uis (resetAttractor st)) \<le> maxPoints
   \<and> (maxPoints \<le> length uis \<longrightarrow> pointCount (run uis (resetAttractor st)) = maxPoints)
   \<and> (pointCount (run uis (resetAttractor st)) < maxPoints \<longrightarrow>
        pointCount (animate ui (run uis (resetAttractor st)))
          = pointCount (run uis (resetAttractor st)) + 1)
   \<and> (pointCount (run uis (resetAttractor st)) = maxPoints \<longrightarrow>
        pointCount (animate ui (run uis (resetAttractor st))) = maxPoints)"
  by (simp add: pointCount_run pointCount_animate)

theorem pointCount_bounded_witness:
  "maxPoints \<le> length (replicate 10000 (Map.empty :: page))
   \<and> pointCount (run (replicate 10000 Map.empty) (resetAttractor init)) = maxPoints
   \<and> pointCount (animate Map.empty (run (replicate 10000 Map.empty) (resetAttractor init)))
       = maxPoints
   \<and> pointCount (run [] (resetAttractor init)) < maxPoints
   \<and> pointCount (animate Map.empty (run [] (resetAttractor init))) = 1"
  using pointCount_bounded [of "replicate 10000 Map.empty" init Map.empty]
        pointCount_bounded [of "[]" init Map.empty]
  by (simp add: maxPoints_def)

section \<open>The trail buffer\<close>

lemma geti_nth [simp]: "j < length arr \<Longrightarrow> geti arr j = arr ! j"
  by (simp add: geti_def)

lemma length_shift3 [simp]: "length (shift3 i arr) = length arr"
  by (simp add: shift3_def Let_def)

lemma length_put3 [simp]: "length (put3 i v arr) = length arr"
  by (cases v) (simp add: put3_def)

lemma nth_shift3:
  assumes "i * 3 + 5 < length arr" and "j < length arr"
  shows "shift3 i arr ! j = (if i * 3 \<le> j \<and> j < i * 3 + 3 then arr ! (j + 3) else arr ! j)"
  using assms by (auto simp add: shift3_def Let_def nth_list_update add.commute)

lemma fold_shift3:
  assumes "n * 3 + 3 \<le> length arr"
  shows "length (fold shift3 [0 ..< n] arr) = length arr
         \<and> (\<forall>j < length arr. fold shift3 [0 ..< n] arr ! j
                = (if j < n * 3 then arr ! (j + 3) else arr ! j))"
  using assms
proof (induction n)
  case 0
  then show ?case by simp
next
  case (Suc n)
  let ?A = "fold shift3 [0 ..< n] arr"
  have ih: "length ?A = length arr"
    "\<And>j. j < length arr \<Longrightarrow> ?A ! j = (if j < n * 3 then arr ! (j + 3) else arr ! j)"
    using Suc by simp_all
  have step: "fold shift3 [0 ..< Suc n] arr = shift3 n ?A"
    by simp
  have b: "n * 3 + 5 < length ?A" using Suc.prems ih(1) by simp
  show ?case
  proof (intro conjI allI impI)
    show "length (fold shift3 [0 ..< Suc n] arr) = length arr"
      by (simp add: ih(1))
  next
    fix j assume j: "j < length arr"
    then have "shift3 n ?A ! j = (if n * 3 \<le> j \<and> j < n * 3 + 3 then ?A ! (j + 3) else ?A ! j)"
      using nth_shift3[OF b, of j] ih(1) by simp
    then show "fold shift3 [0 ..< Suc n] arr ! j
                = (if j < Suc n * 3 then arr ! (j + 3) else arr ! j)"
      unfolding step using j Suc.prems ih(2)[of j] ih(2)[of "j + 3"]
      by (auto split: if_splits)
  qed
qed

lemma fold_pair:
  "fold (\<lambda>i (ps, cs). (f i ps, g i cs)) ns (a, b) = (fold f ns a, fold g ns b)"
  by (induction ns arbitrary: a b) simp_all

lemma slot3_put3:
  assumes "i * 3 + 2 < length arr"
  shows "slot3 (put3 i v arr) k = (if k = i then fround3 v else slot3 arr k)"
proof (cases v)
  case (fields v0 v1 v2)
  show ?thesis
  proof (cases "k = i")
    case True
    then show ?thesis using assms fields
      by (simp add: slot3_def put3_def fround3_def)
  next
    case False
    then have "k * 3 \<noteq> i * 3" "k * 3 \<noteq> i * 3 + 1" "k * 3 \<noteq> i * 3 + 2"
      "k * 3 + 1 \<noteq> i * 3" "k * 3 + 1 \<noteq> i * 3 + 1" "k * 3 + 1 \<noteq> i * 3 + 2"
      "k * 3 + 2 \<noteq> i * 3" "k * 3 + 2 \<noteq> i * 3 + 1" "k * 3 + 2 \<noteq> i * 3 + 2"
      by presburger+
    then show ?thesis using False fields
      by (simp add: slot3_def put3_def geti_def)
  qed
qed

lemma slot3_shift:
  assumes "length arr = maxPoints * 3" and "k < maxPoints"
  shows "slot3 (fold shift3 [0 ..< maxPoints - 1] arr) k
           = (if k < maxPoints - 1 then slot3 arr (k + 1) else slot3 arr k)"
proof -
  have l: "(maxPoints - 1) * 3 + 3 \<le> length arr"
    using assms maxPoints_pos by simp
  note f = fold_shift3[OF l]
  have k: "k * 3 + 2 < length arr" using assms by simp
  show ?thesis
    using f assms k by (auto simp add: slot3_def geti_def add.commute)
qed


lemma length_fold_shift3 [simp]: "length (fold shift3 ns arr) = length arr"
  by (induction ns arbitrary: arr) simp_all

lemma view_put:
  assumes "n * 3 + 2 < length arr"
  shows "map (slot3 (put3 n v arr)) [0 ..< Suc n] = map (slot3 arr) [0 ..< n] @ [fround3 v]"
  by (simp add: slot3_put3[OF assms])

lemma view_shift_put:
  assumes "length arr = maxPoints * 3"
  shows "map (slot3 (put3 (maxPoints - 1) v (fold shift3 [0 ..< maxPoints - 1] arr)))
             [0 ..< maxPoints]
           = tl (map (slot3 arr) [0 ..< maxPoints]) @ [fround3 v]"
proof (rule nth_equalityI)
  show "length (map (slot3 (put3 (maxPoints - 1) v (fold shift3 [0 ..< maxPoints - 1] arr)))
                    [0 ..< maxPoints])
          = length (tl (map (slot3 arr) [0 ..< maxPoints]) @ [fround3 v])"
    using maxPoints_pos by simp
next
  let ?ps = "fold shift3 [0 ..< maxPoints - 1] arr"
  fix k
  assume "k < length (map (slot3 (put3 (maxPoints - 1) v ?ps)) [0 ..< maxPoints])"
  then have k: "k < maxPoints" by simp
  have b: "(maxPoints - 1) * 3 + 2 < length ?ps"
    using assms maxPoints_pos by simp
  have s1: "slot3 (put3 (maxPoints - 1) v ?ps) k
              = (if k = maxPoints - 1 then fround3 v else slot3 ?ps k)"
    by (rule slot3_put3[OF b])
  have s2: "slot3 ?ps k = (if k < maxPoints - 1 then slot3 arr (k + 1) else slot3 arr k)"
    by (rule slot3_shift[OF assms k])
  have "slot3 (put3 (maxPoints - 1) v ?ps) k
          = (if k = maxPoints - 1 then fround3 v else slot3 arr (k + 1))"
    using s1 s2 k by auto
  also have "\<dots> = (tl (map (slot3 arr) [0 ..< maxPoints]) @ [fround3 v]) ! k"
    using k by (auto simp add: nth_append nth_tl)
  finally show "map (slot3 (put3 (maxPoints - 1) v ?ps)) [0 ..< maxPoints] ! k
                  = (tl (map (slot3 arr) [0 ..< maxPoints]) @ [fround3 v]) ! k"
    using k by simp
qed

lemma positions_addPoint:
  "positions (addPoint p st)
     = (if pointCount st < maxPoints then put3 (pointCount st) p (positions st)
        else put3 (maxPoints - 1) p (fold shift3 [0 ..< maxPoints - 1] (positions st)))"
  by (simp add: addPoint_def fold_pair)

lemma colors_addPoint:
  "colors (addPoint p st)
     = (if pointCount st < maxPoints
        then put3 (pointCount st) (getColor (Fin (real (pointCount st)))) (colors st)
        else put3 (maxPoints - 1) (getColor (Fin (real (maxPoints - 1))))
               (fold shift3 [0 ..< maxPoints - 1] (colors st)))"
  by (simp add: addPoint_def fold_pair)


lemma colorsView_addPoint:
  assumes "length (colors st) = maxPoints * 3" and "pointCount st \<le> maxPoints"
  shows "colorsView (addPoint p st)
           = (if pointCount st < maxPoints
              then colorsView st @ [fround3 (getColor (Fin (real (pointCount st))))]
              else tl (colorsView st) @ [fround3 (getColor (Fin (real (maxPoints - 1))))])"
proof (cases "pointCount st < maxPoints")
  case True
  then have b: "pointCount st * 3 + 2 < length (colors st)"
    using assms by simp
  show ?thesis
    using True view_put[OF b, of "getColor (Fin (real (pointCount st)))"]
    by (simp add: colorsView_def pointCount_addPoint colors_addPoint)
next
  case False
  then have pc: "pointCount st = maxPoints" using assms by simp
  show ?thesis
    using False pc view_shift_put[OF assms(1), of "getColor (Fin (real (maxPoints - 1)))"]
    by (simp add: colorsView_def pointCount_addPoint colors_addPoint)
qed

lemma length_arrays_animate [simp]:
  "length (positions (animate ui st)) = length (positions st)"
  "length (colors (animate ui st)) = length (colors st)"
  by (simp_all add: animate_def Let_def positions_addPoint colors_addPoint)

lemma length_arrays_run [simp]:
  "length (positions (run uis st)) = length (positions st)"
  "length (colors (run uis st)) = length (colors st)"
  by (induction uis arbitrary: st) simp_all

lemma stateVector_addPoint [simp]: "stateVector (addPoint p st) = stateVector st"
  by (simp add: stateVector_def)


lemma colorsView_animate:
  assumes "length (colors st) = maxPoints * 3" and "pointCount st \<le> maxPoints"
  shows "colorsView (animate ui st)
           = (if pointCount st < maxPoints
              then colorsView st @ [fround3 (getColor (Fin (real (pointCount st))))]
              else tl (colorsView st) @ [fround3 (getColor (Fin (real (maxPoints - 1))))])"
proof -
  let ?s2 = "computeNextPoint (updateParametersFromUI ui st)"
  have a: "animate ui st = addPoint (stateVector ?s2) ?s2"
    by (simp add: animate_def Let_def stateVector_def)
  have v: "colorsView ?s2 = colorsView st"
    by (simp add: colorsView_def)
  have "length (colors ?s2) = maxPoints * 3" "pointCount ?s2 \<le> maxPoints"
    using assms by simp_all
  from colorsView_addPoint[OF this, of "stateVector ?s2"] show ?thesis
    by (simp add: a v)
qed


lemma length_trajectory [simp]: "length (trajectory uis st) = length uis"
  by (simp add: trajectory_def del: upt_Suc)








lemma colorsView_run:
  assumes "length (colors st) = maxPoints * 3"
  shows "colorsView (run uis (resetAttractor st))
           = map (\<lambda>i. fround3 (getColor (Fin (real (min (i + (length uis - maxPoints)) (maxPoints - 1))))))
                 [0 ..< min (length uis) maxPoints]"
proof (induction uis rule: rev_induct)
  case Nil
  show ?case by (simp add: colorsView_def)
next
  case (snoc ui uis)
  let ?r = "resetAttractor st"
  let ?s = "run uis ?r"
  let ?g = "\<lambda>n i. fround3 (getColor (Fin (real (min (i + (n - maxPoints)) (maxPoints - 1)))))"
  have len: "length (colors ?s) = maxPoints * 3" using assms by simp
  have pc: "pointCount ?s = min (length uis) maxPoints"
    by (simp add: pointCount_run)
  have le: "pointCount ?s \<le> maxPoints" using pc by simp
  have r: "run (uis @ [ui]) ?r = animate ui ?s" by (simp add: run_append)
  note v = colorsView_animate[OF len le, of ui]
  show ?case
  proof (cases "length uis < maxPoints")
    case True
    then have "colorsView (animate ui ?s)
                 = map (?g (length uis)) [0 ..< length uis] @ [fround3 (getColor (Fin (real (length uis))))]"
      using v snoc.IH pc by simp
    also have "\<dots> = map (?g (Suc (length uis))) [0 ..< Suc (length uis)]"
      using True by (auto simp add: min_def)
    finally show ?thesis using True by (simp add: r min_def)
  next
    case False
    then have "colorsView (animate ui ?s)
                 = tl (map (?g (length uis)) [0 ..< maxPoints])
                     @ [fround3 (getColor (Fin (real (maxPoints - 1))))]"
      using v snoc.IH pc by (simp add: min_def)
    also have "\<dots> = map (?g (Suc (length uis))) [0 ..< maxPoints]"
    proof (rule nth_equalityI)
      show "length (tl (map (?g (length uis)) [0 ..< maxPoints])
                      @ [fround3 (getColor (Fin (real (maxPoints - 1))))])
              = length (map (?g (Suc (length uis))) [0 ..< maxPoints])"
        using maxPoints_pos by simp
    next
      fix k
      assume "k < length (tl (map (?g (length uis)) [0 ..< maxPoints])
                            @ [fround3 (getColor (Fin (real (maxPoints - 1))))])"
      then have k: "k < maxPoints" using maxPoints_pos by simp
      have e: "Suc k + (length uis - maxPoints) = k + (Suc (length uis) - maxPoints)"
        using False by simp
      show "(tl (map (?g (length uis)) [0 ..< maxPoints])
               @ [fround3 (getColor (Fin (real (maxPoints - 1))))]) ! k
              = map (?g (Suc (length uis))) [0 ..< maxPoints] ! k"
      proof (cases "k = maxPoints - 1")
        case True
        then show ?thesis using k by (simp add: nth_append min_def)
      next
        case False
        then have sk: "Suc k < maxPoints" and k1: "k < maxPoints - 1" using k by simp_all
        have "(tl (map (?g (length uis)) [0 ..< maxPoints])
                 @ [fround3 (getColor (Fin (real (maxPoints - 1))))]) ! k
                = map (?g (length uis)) [0 ..< maxPoints] ! Suc k"
          using sk k1 by (simp add: nth_append nth_tl)
        also have "\<dots> = ?g (length uis) (Suc k)"
          using sk by simp
        also have "\<dots> = ?g (Suc (length uis)) k"
          by (simp only: e)
        also have "\<dots> = map (?g (Suc (length uis))) [0 ..< maxPoints] ! k"
          using k by simp
        finally show ?thesis .
      qed
    qed
    finally show ?thesis using False by (simp add: r min_def)
  qed
qed


lemma red_channel_2500:
  "\<exists>c g b. getColor (Fin 2500) = (Fin c, g, b) \<and> 3 / 4 \<le> c \<and> c \<le> 1"
proof -
  have h: "(2500::real) / real maxPoints * Math_PI_value * 2 = Math_PI_value / 2"
    by (simp add: maxPoints_def)
  have v: "3 < Math_PI_value" by (simp add: Math_PI_value_def)
  have p: "pi < 4" using pi_less by simp
  have "sin (pi / 6) \<le> sin (Math_PI_value / 2)"
  proof (rule sin_monotone_2pi_le)
    show "- (pi / 2) \<le> pi / 6" using pi_gt_zero by linarith
    show "pi / 6 \<le> Math_PI_value / 2" using v p by linarith
    show "Math_PI_value / 2 \<le> pi / 2" using Math_PI_less_pi by linarith
  qed
  then have "1 / 2 \<le> sin (Math_PI_value / 2)"
    by (simp add: sin_30)
  moreover have "sin (Math_PI_value / 2) \<le> 1" by simp
  ultimately have "3 / 4 \<le> sin (Math_PI_value / 2) * 0.5 + 0.5"
    "sin (Math_PI_value / 2) * 0.5 + 0.5 \<le> 1"
    by linarith+
  then show ?thesis
    unfolding getColor_Fin h by blast
qed

lemma red_channel_0:
  "\<exists>g b. getColor (Fin 0) = (Fin (1 / 2), g, b)"
  unfolding getColor_Fin by simp

lemma stored_colour_differs:
  "fround3 (getColor (Fin 2500)) \<noteq> getColor (Fin 0)
   \<and> fround3 (getColor (Fin 2500)) \<noteq> fround3 (getColor (Fin 0))"
proof -
  obtain c g b where c: "getColor (Fin 2500) = (Fin c, g, b)" "3 / 4 \<le> c" "c \<le> 1"
    using red_channel_2500 by blast
  obtain g0 b0 where z: "getColor (Fin 0) = (Fin (1 / 2), g0, b0)"
    using red_channel_0 by blast
  obtain m where m: "fround (Fin c) = Fin m" "abs (m - c) \<le> 1 / 2 ^ 25"
    using fround_half_to_one[of c] c by auto
  have "(1::real) / 2 ^ 25 \<le> 1 / 8" by simp
  then have "m \<noteq> 1 / 2" using m(2) c(2) by linarith
  moreover have "fround (Fin (1 / 2)) = Fin (1 / 2)"
    using fround_examples(2) by simp
  ultimately show ?thesis
    unfolding c z by (simp add: fround3_def m(1) del: fround.simps)
qed

text \<open>
  Claim C8, as amended. The loop of \<^verbatim>\<open>animate\<close> shifts the colours together with the
  positions, so a colour travels with its point. After a reset and \<open>n\<close> frames, slot \<open>i\<close>
  holds the colour \<^verbatim>\<open>getColor\<close> gives for index \<open>min (i + (n - maxPoints)) (maxPoints - 1)\<close>
  (with truncating subtraction), as the \<^verbatim>\<open>Float32Array\<close> stores it, that is rounded to
  single precision. As long as nothing has been evicted (\<open>n \<le> maxPoints\<close>) that is the
  rounding of \<^verbatim>\<open>getColor(i)\<close>; afterwards it no longer is.
\<close>

theorem slot_colors_after_run:
  assumes "length (colors st) = maxPoints * 3"
  shows "(length uis \<le> maxPoints \<longrightarrow>
            colorsView (run uis (resetAttractor st))
              = map (\<lambda>i. fround3 (getColor (Fin (real i)))) [0 ..< length uis])
         \<and> colorsView (run uis (resetAttractor st))
             = map (\<lambda>i. fround3 (getColor (Fin (real (min (i + (length uis - maxPoints))
                                                             (maxPoints - 1))))))
                   [0 ..< min (length uis) maxPoints]"
proof (intro conjI impI)
  show g: "colorsView (run uis (resetAttractor st))
             = map (\<lambda>i. fround3 (getColor (Fin (real (min (i + (length uis - maxPoints))
                                                             (maxPoints - 1))))))
                   [0 ..< min (length uis) maxPoints]"
    by (rule colorsView_run[OF assms])
  assume "length uis \<le> maxPoints"
  then show "colorsView (run uis (resetAttractor st))
               = map (\<lambda>i. fround3 (getColor (Fin (real i)))) [0 ..< length uis]"
    unfolding g by (auto simp add: min_def)
qed

theorem slot_colors_after_run_witness:
  "length (colors init) = maxPoints * 3
   \<and> length [Map.empty, Map.empty :: page] \<le> maxPoints
   \<and> colorsView (run [Map.empty, Map.empty] (resetAttractor init))
       = [fround3 (getColor (Fin 0)), fround3 (getColor (Fin 1))]
   \<and> \<not> length (replicate 12500 (Map.empty :: page)) \<le> maxPoints
   \<and> colorsView (run (replicate 12500 Map.empty) (resetAttractor init))
       = map (\<lambda>i. fround3 (getColor (Fin (real (min (i + 2500) 9999))))) [0 ..< 10000]"
proof -
  have h: "length (colors init) = maxPoints * 3" by (simp add: init_def)
  have n: "length [Map.empty, Map.empty :: page] \<le> maxPoints" by (simp add: maxPoints_def)
  have u: "[0 ..< length [Map.empty, Map.empty :: page]] = [0, 1]"
    by (simp add: upt_rec)
  have two: "colorsView (run [Map.empty, Map.empty] (resetAttractor init))
               = [fround3 (getColor (Fin 0)), fround3 (getColor (Fin 1))]"
    using slot_colors_after_run [OF h, of "[Map.empty, Map.empty]"] n
    unfolding u by simp
  have big: "colorsView (run (replicate 12500 Map.empty) (resetAttractor init))
               = map (\<lambda>i. fround3 (getColor (Fin (real (min (i + 2500) 9999))))) [0 ..< 10000]"
    using slot_colors_after_run [OF h, of "replicate 12500 Map.empty"]
    by (simp add: maxPoints_def)
  show ?thesis
    using h n two big by (simp add: maxPoints_def del: run.simps)
qed

text \<open>
  The claim as stated fails once points have been evicted: after \<open>12500\<close> frames slot \<open>0\<close>
  holds the colour of index \<open>2500\<close>, which is neither the colour of index \<open>0\<close> nor its
  rounding to single precision.
\<close>

theorem slot_colors_counterexample:
  "0 < pointCount (run (replicate 12500 Map.empty) (resetAttractor init))
   \<and> slot3 (colors (run (replicate 12500 Map.empty) (resetAttractor init))) 0
       \<noteq> getColor (Fin 0)
   \<and> slot3 (colors (run (replicate 12500 Map.empty) (resetAttractor init))) 0
       \<noteq> fround3 (getColor (Fin 0))"
proof -
  let ?s = "run (replicate 12500 Map.empty) (resetAttractor init)"
  have h: "length (colors init) = maxPoints * 3" by (simp add: init_def)
  have pc: "pointCount ?s = 10000"
    by (simp add: pointCount_run maxPoints_def)
  have "colorsView ?s ! 0
          = map (\<lambda>i. fround3 (getColor (Fin (real (min (i + (12500 - maxPoints))
                                                          (maxPoints - 1))))))
                [0 ..< min 12500 maxPoints] ! 0"
    using colorsView_run[OF h, of "replicate 12500 Map.empty"] by simp
  also have "\<dots> = fround3 (getColor (Fin 2500))"
    by (simp add: maxPoints_def)
  finally have "colorsView ?s ! 0 = fround3 (getColor (Fin 2500))" .
  moreover have "colorsView ?s ! 0 = slot3 (colors ?s) 0"
    by (simp add: colorsView_def pc)
  ultimately show ?thesis
    using stored_colour_differs pc by simp
qed

section \<open>Reading numbers from text\<close>

lemma toNumber_Fin:
  assumes "1 / 10 ^ 6 \<le> abs v" and "abs v \<le> 10 ^ 6"
  shows "toNumber v = Fin v"
proof -
  have "(10::real) ^ 6 < 2 ^ 1024 - 2 ^ 970" by simp
  moreover have "(1::real) / 2 ^ 1075 < 1 / 10 ^ 6" by simp
  ultimately show ?thesis
    using assms unfolding toNumber_def by auto
qed

lemma parseFloat_30: "parseFloat ''30'' = Fin 30"
  by (simp add: parseFloat_def isWhiteSpace_def strUnsignedDecimalLiteral_def isDigit_def
      digitsValue_def scale10_def exponentPart_def toNumber_Fin)

lemma parseFloat_lorenz_defaults:
  "parseFloat ''10'' = Fin 10"
  "parseFloat ''28'' = Fin 28"
  "parseFloat ''2.666'' = Fin 2.666"
  "parseFloat ''0.01'' = Fin 0.01"
  "parseFloat ''50'' = Fin 50"
  by (simp_all add: parseFloat_def isWhiteSpace_def strUnsignedDecimalLiteral_def isDigit_def
      digitsValue_def scale10_def exponentPart_def toNumber_Fin)

lemma parseFloat_not_a_number: "parseFloat ''not-a-number'' = NaN"
  by (simp add: parseFloat_def isWhiteSpace_def strUnsignedDecimalLiteral_def isDigit_def)

lemma parseFloat_out_of_range:
  "parseFloat ''1e310'' = PInf"
  "parseFloat ''-1e310'' = NInf"
  "parseFloat ''1e-330'' = Fin 0"
  "parseFloat [CHR 0xA0, CHR ''5''] = Fin 5"
  by (simp_all add: parseFloat_def isWhiteSpace_def strUnsignedDecimalLiteral_def isDigit_def
      digitsValue_def scale10_def exponentPart_def toNumber_def inf_of_sign_def
      uminus_jsnum_def)

section \<open>Reset and model selection\<close>

lemma pointsView_empty: "pointCount st = 0 \<Longrightarrow> pointsView st = []"
  by (simp add: pointsView_def)

lemma resetAttractor_p0_simps:
  "stateVector (resetAttractor_p0 st)
     = (if currentAttractor st = ''aizawa'' then (Fin 1, Fin 0, Fin 0)
        else (Fin 0.1, Fin 0, Fin 0))"
  "pointCount (resetAttractor_p0 st) = 0"
  "params (resetAttractor_p0 st) = params st"
  "currentAttractor (resetAttractor_p0 st) = currentAttractor st"
  "positions (resetAttractor_p0 st) = replicate (length (positions st)) (Fin 0)"
  "colors (resetAttractor_p0 st) = replicate (length (colors st)) (Fin 0)"
  by (simp_all add: resetAttractor_p0_def stateVector_def fill_def Let_def)

lemma stateVector_resetAttractor: "stateVector (resetAttractor st) = (Fin 0.1, Fin 0, Fin 0)"
  by (simp add: stateVector_def)

lemma first_frame:
  "currentAttractor (run [Map.empty] init) = ''lorenz''"
  "pointCount (run [Map.empty] init) = 1"
  "stateVector (run [Map.empty] init) = (Fin 0.09, Fin 0.028, Fin 0)"
proof -
  have u: "updateParametersFromUI Map.empty init = init"
    by (simp add: updateParametersFromUI_def params_get_def params_set_def init_def params0_def)
  show "currentAttractor (run [Map.empty] init) = ''lorenz''"
    by (simp add: animate_def Let_def init_def)
  show "pointCount (run [Map.empty] init) = 1"
    by (simp add: pointCount_animate init_def maxPoints_def)
  show "stateVector (run [Map.empty] init) = (Fin 0.09, Fin 0.028, Fin 0)"
    by (simp add: animate_def Let_def u)
       (simp add: stateVector_def computeNextPoint_def init_def params0_def getnum_def)
qed

text \<open>
  Claim C4, as amended. \<^verbatim>\<open>changeAttractor\<close> has no membership check and no error: for
  every identifier, in the set of six or not, it makes that identifier the active model and
  resets, so the state vector becomes \<open>(0.1, 0, 0)\<close> and the trail is emptied; the stored
  parameters stay.
\<close>

theorem changeAttractor_any:
  "currentAttractor (changeAttractor m st) = m
   \<and> stateVector (changeAttractor m st) = (Fin 0.1, Fin 0, Fin 0)
   \<and> pointCount (changeAttractor m st) = 0
   \<and> pointsView (changeAttractor m st) = []
   \<and> params (changeAttractor m st) = params st"
  by (simp add: changeAttractor_def stateVector_resetAttractor pointsView_empty)

text \<open>
  The claim as stated fails for an identifier outside the set: after one frame,
  \<^verbatim>\<open>changeAttractor('henon')\<close> changes the active model, the state vector and the number of
  live points.
\<close>

theorem changeAttractor_counterexample:
  "''henon'' \<notin> set (map model_id [Lorenz, Aizawa, Rossler, Chen, Thomas, Dadras])
   \<and> currentAttractor (changeAttractor ''henon'' (run [Map.empty] init))
       \<noteq> currentAttractor (run [Map.empty] init)
   \<and> stateVector (changeAttractor ''henon'' (run [Map.empty] init))
       \<noteq> stateVector (run [Map.empty] init)
   \<and> pointCount (changeAttractor ''henon'' (run [Map.empty] init))
       \<noteq> pointCount (run [Map.empty] init)"
  by (simp add: changeAttractor_def first_frame stateVector_resetAttractor del: run.simps)

text \<open>
  Claim C5, as amended. In \<^verbatim>\<open>main.js\<close>, \<^verbatim>\<open>resetAttractor\<close> sets the state vector to
  \<open>(0.1, 0, 0)\<close> whatever the model, empties the trail and keeps every stored parameter. The
  Runge-Kutta variant does the same except that it starts aizawa at \<open>(1, 0, 0)\<close>, the
  initial condition scaled by \<open>k = 10\<close>. The Lorenz-only variant also puts its four
  parameters back to their defaults.
\<close>

theorem reset_effects:
  "stateVector (resetAttractor st) = (Fin 0.1, Fin 0, Fin 0)
   \<and> pointCount (resetAttractor st) = 0
   \<and> pointsView (resetAttractor st) = []
   \<and> params (resetAttractor st) = params st
   \<and> stateVector (resetAttractor_p0 st)
       = (if currentAttractor st = ''aizawa'' then (Fin 1, Fin 0, Fin 0)
          else (Fin 0.1, Fin 0, Fin 0))
   \<and> pointCount (resetAttractor_p0 st) = 0
   \<and> pointsView (resetAttractor_p0 st) = []
   \<and> params (resetAttractor_p0 st) = params st
   \<and> (x_p1 (resetAttractor_p1 lt), y_p1 (resetAttractor_p1 lt), z_p1 (resetAttractor_p1 lt))
       = (Fin 0.1, Fin 0, Fin 0)
   \<and> pointCount_p1 (resetAttractor_p1 lt) = 0
   \<and> (sigma_p1 (resetAttractor_p1 lt), rho_p1 (resetAttractor_p1 lt),
       beta_p1 (resetAttractor_p1 lt), dt_p1 (resetAttractor_p1 lt))
       = (Fin 10, Fin 28, Fin 2.666, Fin 0.01)"
  by (simp add: stateVector_resetAttractor pointsView_empty resetAttractor_p0_simps
      resetAttractor_p1_def)

text \<open>
  The claim as stated fails in the two variants: in the Runge-Kutta variant a reset with
  aizawa selected does not give \<open>(0.1, 0, 0)\<close>, and in the Lorenz-only variant a reset
  after the slider has put \<open>rho\<close> at \<open>30\<close> puts it back to \<open>28\<close>.
\<close>

theorem reset_effects_counterexample:
  "stateVector (resetAttractor_p0 (changeAttractor_p0 ''aizawa'' init)) \<noteq> (Fin 0.1, Fin 0, Fin 0)
   \<and> map_option rho_p1
        (updateParameters_p1
           [''sigma'' \<mapsto> ''10'', ''rho'' \<mapsto> ''30'', ''beta'' \<mapsto> ''2.666'', ''speed'' \<mapsto> ''0.01'']
           init_p1) = Some (Fin 30)
   \<and> map_option (rho_p1 \<circ> resetAttractor_p1)
        (updateParameters_p1
           [''sigma'' \<mapsto> ''10'', ''rho'' \<mapsto> ''30'', ''beta'' \<mapsto> ''2.666'', ''speed'' \<mapsto> ''0.01'']
           init_p1) = Some (Fin 28)"
  by (simp add: resetAttractor_p0_simps changeAttractor_p0_def updateParameters_p1_def
      parseFloat_30 resetAttractor_p1_def)

section \<open>A frame with an unknown model\<close>






section \<open>Parameters read from the page\<close>

lemma map_of_fold_update:
  "map_of (fold (\<lambda>key ob. case f key of Some v \<Rightarrow> AList.update key (g v) ob | None \<Rightarrow> ob) ks ob) k
     = (if k \<in> set ks then (case f k of Some v \<Rightarrow> Some (g v) | None \<Rightarrow> map_of ob k)
        else map_of ob k)"
proof (induction ks arbitrary: ob)
  case Nil
  show ?case by simp
next
  case (Cons a ks)
  show ?case
    by (cases "f a") (auto simp add: Cons.IH update_conv' split: option.splits)
qed

lemma getnum_updated:
  "getnum (fold (\<lambda>key ob. case ui (pre @ key) of
                            Some v \<Rightarrow> AList.update key (parseFloat v) ob | None \<Rightarrow> ob)
                (map fst currentParams) currentParams) k
     = (case ui (pre @ k) of
          Some v \<Rightarrow> if k \<in> fst ` set currentParams then parseFloat v else getnum currentParams k
        | None \<Rightarrow> getnum currentParams k)"
  using map_of_fold_update[where f = "\<lambda>key. ui (pre @ key)" and g = parseFloat
      and ks = "map fst currentParams" and ob = currentParams and k = k]
  by (auto simp add: getnum_def split: option.splits)

lemma params_get_model [simp]: "params_get p (model_id m) = Some (parameterSet p m)"
  by (cases m) (simp_all add: params_get_def)

lemma parameterSet_params_set:
  "parameterSet (params_set p (model_id m) ob) m' = (if m' = m then ob else parameterSet p m')"
  by (cases m; cases m') (simp_all add: params_set_def)

lemma toNumber_not_NaN: "toNumber v \<noteq> NaN"
proof -
  have "(0::real) < 2 ^ 1024 - 2 ^ 970" by simp
  then show ?thesis
    by (auto simp add: toNumber_def inf_of_sign_def)
qed

lemma uminus_not_NaN: "u \<noteq> NaN \<Longrightarrow> - u \<noteq> (NaN :: jsnum)"
  by (cases u) (simp_all add: uminus_jsnum_def)

lemma strUnsignedDecimalLiteral_not_NaN:
  assumes "if dropWhile isDigit s \<noteq> [] \<and> hd (dropWhile isDigit s) = CHR ''.''
           then takeWhile isDigit (tl (dropWhile isDigit s)) \<noteq> []
           else takeWhile isDigit s \<noteq> []"
  shows "strUnsignedDecimalLiteral s \<noteq> NaN"
  using assms
  by (auto simp add: strUnsignedDecimalLiteral_def Let_def toNumber_not_NaN split: if_splits)

lemma isDigit_plain:
  assumes "isDigit c"
  shows "\<not> isWhiteSpace c" and "c \<noteq> CHR ''+''" and "c \<noteq> CHR ''-''"
  using assms by (auto simp add: isDigit_def isWhiteSpace_def)

lemma validFloat_not_NaN:
  assumes "validFloat s"
  shows "parseFloat s \<noteq> NaN"
proof (cases s)
  case Nil
  then show ?thesis using assms by (simp add: validFloat_def)
next
  case (Cons c r)
  show ?thesis
  proof (cases "c = CHR ''-''")
    case True
    have "strUnsignedDecimalLiteral r \<noteq> NaN"
      using assms Cons True
      by (intro strUnsignedDecimalLiteral_not_NaN)
         (auto simp add: validFloat_def Let_def split: if_splits)
    then show ?thesis
      using Cons True by (simp add: parseFloat_def isWhiteSpace_def uminus_not_NaN)
  next
    case False
    have v: "if dropWhile isDigit s \<noteq> [] \<and> hd (dropWhile isDigit s) = CHR ''.''
             then takeWhile isDigit (tl (dropWhile isDigit s)) \<noteq> []
             else takeWhile isDigit s \<noteq> []"
      using assms Cons False by (auto simp add: validFloat_def Let_def split: if_splits)
    have c: "isDigit c \<or> c = CHR ''.''"
      using v Cons by (auto split: if_splits)
    then have p: "\<not> isWhiteSpace c" "c \<noteq> CHR ''+''"
      using isDigit_plain[of c] by (auto simp add: isWhiteSpace_def)
    have "strUnsignedDecimalLiteral s \<noteq> NaN"
      by (rule strUnsignedDecimalLiteral_not_NaN[OF v])
    then show ?thesis
      using Cons False p by (simp add: parseFloat_def)
  qed
qed

lemma getnum_after_update:
  assumes "currentAttractor st = model_id m"
  shows "getnum (parameterSet (params (updateParametersFromUI ui st)) m) key
           = (case ui (model_id m @ ''-'' @ key) of
                Some v \<Rightarrow> if key \<in> fst ` set (parameterSet (params st) m) then parseFloat v
                          else getnum (parameterSet (params st) m) key
              | None \<Rightarrow> getnum (parameterSet (params st) m) key)"
  using assms getnum_updated[of ui "model_id m @ ''-''" "parameterSet (params st) m" key]
  by (simp add: updateParametersFromUI_def parameterSet_params_set)

lemma other_models_after_update:
  assumes "currentAttractor st = model_id m" and "m' \<noteq> m"
  shows "parameterSet (params (updateParametersFromUI ui st)) m' = parameterSet (params st) m'"
  using assms by (simp add: updateParametersFromUI_def parameterSet_params_set)

lemma params_animate [simp]: "params (animate ui st) = params (updateParametersFromUI ui st)"
  by (simp add: animate_def Let_def)

lemma fracDigits_numeral:
  "fracDigits (numeral k) f =
     (if f = 0 then []
      else digitChar (nat \<lfloor>f * 10\<rfloor>)
             # fracDigits (pred_numeral k) (f * 10 - of_int \<lfloor>f * 10\<rfloor>))"
  by (simp add: numeral_eq_Suc)

lemma not_a_number_invalid: "\<not> validFloat ''not-a-number''"
  by (simp add: validFloat_def validExponent_def isDigit_def)

lemma validFloat_50: "validFloat ''50''"
  by (simp add: validFloat_def validExponent_def isDigit_def)

lemma digitChar_isDigit:
  assumes "d < 10"
  shows "isDigit (digitChar d)"
proof -
  have "d = 0 \<or> d = 1 \<or> d = 2 \<or> d = 3 \<or> d = 4 \<or> d = 5 \<or> d = 6 \<or> d = 7 \<or> d = 8 \<or> d = 9"
    using assms by arith
  then show ?thesis
    by (elim disjE) (simp_all add: digitChar_def isDigit_def)
qed

lemma natDigits_digits: "natDigits n \<noteq> [] \<and> list_all isDigit (natDigits n)"
proof (induction n rule: natDigits.induct)
  case (1 n)
  show ?case
  proof (cases "n < 10")
    case True
    then show ?thesis
      by (subst (1 2) natDigits.simps) (simp add: digitChar_isDigit)
  next
    case False
    have "n mod 10 < 10" by simp
    then have d: "isDigit (digitChar (n mod 10))" by (rule digitChar_isDigit)
    from False 1 d show ?thesis
      by (subst (1 2) natDigits.simps) simp
  qed
qed

lemma fracDigits_digits:
  assumes "0 \<le> f" and "f < 1"
  shows "list_all isDigit (fracDigits k f)"
  using assms
proof (induction k arbitrary: f)
  case 0
  show ?case by simp
next
  case (Suc k)
  let ?d = "\<lfloor>f * 10\<rfloor>"
  have lo: "0 \<le> ?d" using Suc.prems by simp
  have "f * 10 < 10" using Suc.prems by simp
  then have hi: "?d < 10" by (simp add: floor_less_iff)
  have "nat ?d < 10" using lo hi by linarith
  then have d: "isDigit (digitChar (nat ?d))" by (rule digitChar_isDigit)
  have "0 \<le> f * 10 - of_int ?d" "f * 10 - of_int ?d < 1" by linarith+
  then have "list_all isDigit (fracDigits k (f * 10 - of_int ?d))" by (rule Suc.IH)
  then show ?case using d by simp
qed

lemma fracDigits_nonempty:
  assumes "f \<noteq> 0"
  shows "fracDigits (Suc k) f \<noteq> []"
  using assms by simp

lemma takeWhile_all: "list_all P xs \<Longrightarrow> \<not> P c \<Longrightarrow> takeWhile P (xs @ c # ys) = xs"
  by (induction xs) simp_all

lemma dropWhile_all: "list_all P xs \<Longrightarrow> \<not> P c \<Longrightarrow> dropWhile P (xs @ c # ys) = c # ys"
  by (induction xs) simp_all

lemma takeWhile_whole: "list_all P xs \<Longrightarrow> takeWhile P xs = xs"
  by (induction xs) simp_all

lemma dropWhile_whole: "list_all P xs \<Longrightarrow> dropWhile P xs = []"
  by (induction xs) simp_all

lemma validFloat_unsigned:
  assumes "ds \<noteq> []" and "list_all isDigit ds" and "list_all isDigit fs"
  shows "validFloat ds" and "fs \<noteq> [] \<Longrightarrow> validFloat (ds @ CHR ''.'' # fs)"
    and "validFloat (CHR ''-'' # ds)" and "fs \<noteq> [] \<Longrightarrow> validFloat (CHR ''-'' # ds @ CHR ''.'' # fs)"
proof -
  have nd: "\<not> isDigit CHR ''.''" "\<not> isDigit CHR ''-''" by (simp_all add: isDigit_def)
  obtain d ds' where c: "ds = d # ds'" using assms(1) by (cases ds) auto
  have d: "isDigit d" "d \<noteq> CHR ''-''" using assms(2) c nd by auto
  have w: "takeWhile isDigit ds = ds" "dropWhile isDigit ds = []"
    using assms(2) by (simp_all add: takeWhile_whole dropWhile_whole)
  have v: "takeWhile isDigit (ds @ CHR ''.'' # fs) = ds"
    "dropWhile isDigit (ds @ CHR ''.'' # fs) = CHR ''.'' # fs"
    using assms(2) nd by (simp_all add: takeWhile_all dropWhile_all)
  have f: "takeWhile isDigit fs = fs" "dropWhile isDigit fs = []"
    using assms(3) by (simp_all add: takeWhile_whole dropWhile_whole)
  have s1: "(case ds of [] \<Rightarrow> [] | c # r \<Rightarrow> if c = CHR ''-'' then r else ds) = ds"
    using c d by simp
  have s2: "(case ds @ CHR ''.'' # fs of [] \<Rightarrow> []
             | c # r \<Rightarrow> if c = CHR ''-'' then r else ds @ CHR ''.'' # fs)
              = ds @ CHR ''.'' # fs"
    using c d by simp
  have s3: "(case CHR ''-'' # ds of [] \<Rightarrow> [] | c # r \<Rightarrow> if c = CHR ''-'' then r else CHR ''-'' # ds)
              = ds"
    by simp
  have s4: "(case CHR ''-'' # ds @ CHR ''.'' # fs of [] \<Rightarrow> []
             | c # r \<Rightarrow> if c = CHR ''-'' then r else CHR ''-'' # ds @ CHR ''.'' # fs)
              = ds @ CHR ''.'' # fs"
    by simp
  show "validFloat ds"
    unfolding validFloat_def Let_def s1 w
    using assms(1) by (simp add: validExponent_def)
  show "validFloat (CHR ''-'' # ds)"
    unfolding validFloat_def Let_def s3 w
    using assms(1) by (simp add: validExponent_def)
  show "validFloat (ds @ CHR ''.'' # fs)" if "fs \<noteq> []"
    unfolding validFloat_def Let_def s2 v
    using that by (simp add: validExponent_def f)
  show "validFloat (CHR ''-'' # ds @ CHR ''.'' # fs)" if "fs \<noteq> []"
    unfolding validFloat_def Let_def s4 v
    using that by (simp add: validExponent_def f)
qed

lemma validFloat_numberToString: "validFloat (numberToString v)"
proof -
  let ?a = "abs v"
  let ?n = "nat \<lfloor>?a\<rfloor>"
  let ?f = "?a - real ?n"
  have n: "natDigits ?n \<noteq> []" "list_all isDigit (natDigits ?n)"
    using natDigits_digits[of ?n] by simp_all
  have r: "real ?n = of_int \<lfloor>?a\<rfloor>" by simp
  have f: "0 \<le> ?f" "?f < 1" unfolding r by linarith+
  have fd: "list_all isDigit (fracDigits 20 ?f)" by (rule fracDigits_digits[OF f])
  have fn: "?f \<noteq> 0 \<Longrightarrow> fracDigits 20 ?f \<noteq> []"
    using fracDigits_nonempty[of ?f 19] by simp
  note u = validFloat_unsigned[OF n fd]
  have e: "numberToString v
             = (if v < 0 then ''-'' else []) @ natDigits ?n
               @ (if ?f = 0 then [] else CHR ''.'' # fracDigits 20 ?f)"
    by (simp add: numberToString_def Let_def del: fracDigits.simps natDigits.simps)
  show ?thesis
  proof (cases "?f = 0")
    case True
    then show ?thesis
      unfolding e using u(1) u(3) by (cases "v < 0") simp_all
  next
    case False
    then show ?thesis
      unfolding e using u(2)[OF fn[OF False]] u(4)[OF fn[OF False]]
      by (cases "v < 0") simp_all
  qed
qed

lemma slider_value_valid: "validFloat (rangeValue (setRangeValue el s))"
  by (simp add: setRangeValue_def validFloat_numberToString)

lemma rho_slider_after_bad_input:
  "pageOf (assignValue lorenzSliders ''lorenz-rho'' ''not-a-number'') ''lorenz-rho'' = Some ''50''"
proof -
  let ?el = "\<lparr> rangeMin = 0, rangeMax = 100, rangeStep = 0.1, rangeValue = ''28'' \<rparr>"
  have e: "lorenzSliders ''lorenz-rho'' = Some ?el"
    by (simp add: lorenzSliders_def)
  have d: "rangeDefault ?el = 50" by (simp add: rangeDefault_def)
  have s: "rangeSanitize ?el 50 = 50" by (simp add: rangeSanitize_def)
  have n: "numberToString 50 = ''50''" by (simp add: numberToString_def digitChar_def)
  have "rangeValue (setRangeValue ?el ''not-a-number'') = ''50''"
    by (simp add: setRangeValue_def not_a_number_invalid d s n)
  then show ?thesis
    by (simp add: pageOf_def assignValue_def e)
qed

lemma pageOf_lorenzSliders: "pageOf lorenzSliders = lorenzInputs"
  by (rule ext) (simp add: pageOf_def lorenzSliders_def lorenzInputs_def)

text \<open>
  Claim C3, as amended. The engine has no \<^verbatim>\<open>setParameter\<close> and no validation: each frame
  overwrites every parameter of the active model whose input element exists with
  \<^verbatim>\<open>parseFloat\<close> of the element's value; a parameter without an input element and the
  parameters of the other models keep their values. The inputs are range sliders: whatever
  text a slider is given, it holds a valid floating-point number afterwards, and
  \<^verbatim>\<open>parseFloat\<close> of such a text is never \<open>NaN\<close>; so \<open>NaN\<close> does not enter the integrator
  through the page. The previous value is not retained, though: a slider that is given a
  text that is not a number holds its default afterwards, and the next frame stores that.
\<close>

theorem updateParametersFromUI_writes:
  assumes "currentAttractor st = model_id m"
  shows "getnum (parameterSet (params (updateParametersFromUI ui st)) m) key
           = (case ui (model_id m @ ''-'' @ key) of
                Some v \<Rightarrow> if key \<in> fst ` set (parameterSet (params st) m) then parseFloat v
                          else getnum (parameterSet (params st) m) key
              | None \<Rightarrow> getnum (parameterSet (params st) m) key)
         \<and> (m' \<noteq> m \<longrightarrow> parameterSet (params (updateParametersFromUI ui st)) m'
                           = parameterSet (params st) m')
         \<and> (key \<in> fst ` set (parameterSet (params st) m)
              \<and> ui (model_id m @ ''-'' @ key) = Some v \<and> validFloat v \<longrightarrow>
              getnum (parameterSet (params (updateParametersFromUI ui st)) m) key = parseFloat v
              \<and> parseFloat v \<noteq> NaN)
         \<and> validFloat (rangeValue (setRangeValue el s))
         \<and> parseFloat (rangeValue (setRangeValue el s)) \<noteq> NaN"
  using getnum_after_update[OF assms, of ui key] other_models_after_update[OF assms, of m' ui]
        validFloat_not_NaN[of v] slider_value_valid[of el s]
        validFloat_not_NaN[OF slider_value_valid[of el s]]
  by auto

theorem updateParametersFromUI_writes_witness:
  "currentAttractor init = model_id Lorenz
   \<and> Aizawa \<noteq> Lorenz
   \<and> ''rho'' \<in> fst ` set (parameterSet (params init) Lorenz)
   \<and> (lorenzInputs(''lorenz-rho'' \<mapsto> ''50'')) (model_id Lorenz @ ''-'' @ ''rho'') = Some ''50''
   \<and> validFloat ''50''
   \<and> getnum (parameterSet (params (updateParametersFromUI (lorenzInputs(''lorenz-rho'' \<mapsto> ''50''))
                                     init)) Lorenz) ''rho'' = Fin 50
   \<and> parameterSet (params (updateParametersFromUI (lorenzInputs(''lorenz-rho'' \<mapsto> ''50'')) init))
                   Aizawa
       = parameterSet (params init) Aizawa"
proof -
  have c: "currentAttractor init = model_id Lorenz" by (simp add: init_def)
  have k: "''rho'' \<in> fst ` set (parameterSet (params init) Lorenz)"
    by (simp add: init_def params0_def)
  have u: "(lorenzInputs(''lorenz-rho'' \<mapsto> ''50'')) (model_id Lorenz @ ''-'' @ ''rho'') = Some ''50''"
    by simp
  show ?thesis
    using updateParametersFromUI_writes
            [OF c, of "lorenzInputs(''lorenz-rho'' \<mapsto> ''50'')" "''rho''" Aizawa "''50''"]
          c k u validFloat_50 parseFloat_lorenz_defaults(5)
    by simp
qed

text \<open>
  The claim as stated fails: when \<^verbatim>\<open>'not-a-number'\<close> is assigned to the \<open>rho\<close> slider, the
  slider holds \<^verbatim>\<open>'50'\<close>, the middle of its range, and the next frame takes \<open>rho\<close> from \<open>28\<close>
  to \<open>50\<close>; the write is not rejected and the previous value is not retained.
\<close>

theorem nonfinite_input_counterexample:
  "\<not> validFloat ''not-a-number''
   \<and> pageOf (assignValue lorenzSliders ''lorenz-rho'' ''not-a-number'') ''lorenz-rho''
       = Some ''50''
   \<and> getnum (lorenz (params init)) ''rho'' = Fin 28
   \<and> getnum (lorenz (params (animate
               (pageOf (assignValue lorenzSliders ''lorenz-rho'' ''not-a-number'')) init)))
             ''rho'' = Fin 50"
proof -
  let ?p = "pageOf (assignValue lorenzSliders ''lorenz-rho'' ''not-a-number'')"
  have c: "currentAttractor init = model_id Lorenz" by (simp add: init_def)
  have k: "''rho'' \<in> fst ` set (parameterSet (params init) Lorenz)"
    by (simp add: init_def params0_def)
  have r: "getnum (lorenz (params init)) ''rho'' = Fin 28"
    by (simp add: init_def params0_def getnum_def)
  have "getnum (parameterSet (params (updateParametersFromUI ?p init)) Lorenz) ''rho'' = Fin 50"
    using getnum_after_update[OF c, of ?p "''rho''"] k rho_slider_after_bad_input
    by (simp add: parseFloat_lorenz_defaults(5))
  then show ?thesis
    using not_a_number_invalid rho_slider_after_bad_input r by simp
qed

section \<open>The integrators\<close>





lemma stateVector_vadd:
  "stateVector (st\<lparr> x := x st + dx, y := y st + dy, z := z st + dz \<rparr>)
     = vadd (stateVector st) (dx, dy, dz)"
  by (simp add: stateVector_def)








lemma aizawa_scaled_differs:
  "aizawa_scaled (aizawa params0) (Fin 1, Fin 0, Fin 0)
     \<noteq> derivative Aizawa (aizawa params0) (Fin 1, Fin 0, Fin 0)"
  by (simp add: aizawa_scaled_def aizawaDerivatives_def params0_def getnum_def)






end
